theory Spec2Isabelle
  imports Complex_Main "HOL-Library.List_Lexorder" "HOL-Library.Char_ord"
begin

section \<open>Exceptions\<close>

text \<open>
  The Python exceptions that the modelled code paths can raise. The payload is the
  message (for \<open>KeyError\<close> the missing key).
\<close>

datatype exn =
    ValueError string
  | IntegrityError string
  | OperationalError string
  | KeyError string
  | OtherError string

section \<open>Storage: the table \<open>stock_daily\<close> (data_storage.py)\<close>

text \<open>
  The canonical record: the eight data columns of \<open>stock_daily\<close>. \<open>ts_code\<close> and
  \<open>trade_date\<close> are \<open>TEXT NOT NULL\<close>; the six numeric columns are \<open>REAL\<close> and
  nullable (\<open>None\<close> is SQL \<open>NULL\<close>). Trade dates are text and are compared as text
  (lexicographically), as SQLite and Python both do.
\<close>

record daily_bar =
  ts_code :: string
  trade_date :: string
  "open" :: "real option"
  high :: "real option"
  low :: "real option"
  close :: "real option"
  volume :: "real option"
  amount :: "real option"

text \<open>
  A stored row adds the surrogate key \<open>id INTEGER PRIMARY KEY AUTOINCREMENT\<close> (here
  \<open>rowid\<close>) and the two timestamps, both \<open>DEFAULT CURRENT_TIMESTAMP\<close>. Timestamps
  are seconds on some clock.
\<close>

record row = daily_bar +
  rowid :: nat
  created_at :: nat
  updated_at :: nat

text \<open>
  The table: its rows in storage order, and the \<open>sqlite_sequence\<close> counter that
  \<open>AUTOINCREMENT\<close> keeps (the largest rowid ever handed out).
\<close>

record table =
  rows :: "row list"
  seq :: nat

text \<open>
  The database file \<open>stock_data.db\<close>: absent, present without the table
  (\<open>sqlite3.connect\<close> creates an empty file), or present with the table.
\<close>

datatype storage = NoFile | NoTable | Table table

text \<open>
  The backup flag file \<open>.data_backup_flag\<close>: absent, or its entries, each a
  (time, record count) pair.
\<close>

type_synonym flag_file = "(nat \<times> nat) list option"

text \<open>
  The tuple that \<open>save_data\<close> binds to the eight placeholders of its statement
  (lines 122 to 134): \<open>None\<close> is Python \<open>None\<close> or \<open>NaN\<close>, which sqlite3 binds as
  \<open>NULL\<close>.
\<close>

type_synonym params =
  "string option \<times> string option \<times> real option \<times> real option \<times> real option \<times>
   real option \<times> real option \<times> real option"

text \<open>
  What \<open>save_data\<close> takes from its surroundings: the value of \<open>CURRENT_TIMESTAMP\<close>
  when the statement for record \<open>k\<close> of the batch runs, an engine error raised by that
  statement if any (disk, lock), and \<open>datetime.now()\<close> when the flag file is written.
\<close>

record io =
  stmt_time :: "nat \<Rightarrow> nat"
  stmt_error :: "nat \<Rightarrow> exn option"
  flag_time :: nat

definition init_database :: "storage \<Rightarrow> storage" where
  \<comment> \<open>\<open>CREATE TABLE IF NOT EXISTS\<close>: an existing table is left as it is.\<close>
  "init_database st =
     (case st of Table t \<Rightarrow> Table t | _ \<Rightarrow> Table \<lparr>rows = [], seq = 0\<rparr>)"

definition check_database_exists :: "storage \<Rightarrow> bool" where
  "check_database_exists st = (st \<noteq> NoFile)"

definition same_key :: "('a daily_bar_scheme) \<Rightarrow> ('b daily_bar_scheme) \<Rightarrow> bool" where
  \<comment> \<open>the two rows agree on the columns of \<open>UNIQUE(ts_code, trade_date)\<close>\<close>
  "same_key r b = (ts_code r = ts_code b \<and> trade_date r = trade_date b)"

definition next_rowid :: "table \<Rightarrow> nat" where
  \<comment> \<open>\<open>AUTOINCREMENT\<close>: one more than the largest rowid in the table or ever used\<close>
  "next_rowid t = Suc (fold max (map rowid (rows t)) (seq t))"

definition insert_or_replace :: "nat \<Rightarrow> table \<Rightarrow> daily_bar \<Rightarrow> table" where
  \<comment> \<open>\<open>INSERT OR REPLACE INTO stock_daily (ts_code, ..., amount, updated_at)
      VALUES (?, ..., ?, CURRENT_TIMESTAMP)\<close> once its values passed the \<open>NOT NULL\<close>
      checks. \<open>REPLACE\<close> deletes every row that conflicts on the unique key, then
      inserts a new row: \<open>id\<close> is drawn afresh and \<open>created_at\<close>, which the column
      list leaves out, takes its default \<open>CURRENT_TIMESTAMP\<close>.\<close>
  "insert_or_replace now t b =
     \<lparr>rows = filter (\<lambda>r. \<not> same_key r b) (rows t) @
        [\<lparr>ts_code = ts_code b, trade_date = trade_date b, open = open b, high = high b,
          low = low b, close = close b, volume = volume b, amount = amount b,
          rowid = next_rowid t, created_at = now, updated_at = now\<rparr>],
      seq = next_rowid t\<rparr>"

definition not_null_check :: "params \<Rightarrow> daily_bar option" where
  \<comment> \<open>the \<open>NOT NULL\<close> constraints on \<open>ts_code\<close> and \<open>trade_date\<close>\<close>
  "not_null_check p =
     (case p of
        (Some c, Some d, op, h, l, cl, v, a) \<Rightarrow>
          Some \<lparr>ts_code = c, trade_date = d, open = op, high = h, low = l,
                close = cl, volume = v, amount = a\<rparr>
      | _ \<Rightarrow> None)"

definition execute_insert :: "io \<Rightarrow> table \<Rightarrow> nat \<times> params \<Rightarrow> exn + table" where
  \<comment> \<open>one execution of the statement, for record \<open>k\<close> of the batch. A \<open>NULL\<close> bound
      to a \<open>NOT NULL\<close> column without default aborts the statement.\<close>
  "execute_insert env t kp =
     (case stmt_error env (fst kp) of
        Some e \<Rightarrow> Inl e
      | None \<Rightarrow>
         (case not_null_check (snd kp) of
            Some b \<Rightarrow> Inr (insert_or_replace (stmt_time env (fst kp)) t b)
          | None \<Rightarrow> Inl (IntegrityError ''NOT NULL constraint failed'')))"

fun executemany :: "io \<Rightarrow> table \<Rightarrow> (nat \<times> params) list \<Rightarrow> exn + table" where
  "executemany env t [] = Inr t"
| "executemany env t (kp # kps) =
     (case execute_insert env t kp of
        Inl e \<Rightarrow> Inl e
      | Inr t' \<Rightarrow> executemany env t' kps)"

definition py_range :: "nat \<Rightarrow> int \<Rightarrow> exn + nat list" where
  \<comment> \<open>\<open>range(0, stop, step)\<close>\<close>
  "py_range stop step =
     (if step = 0 then Inl (ValueError ''range() arg 3 must not be zero'')
      else if step < 0 then Inr []
      else Inr (map (\<lambda>j. j * nat step) [0 ..< (stop + nat step - 1) div nat step]))"

definition slice :: "'a list \<Rightarrow> nat \<Rightarrow> int \<Rightarrow> 'a list" where
  \<comment> \<open>\<open>records[i:i+batch_size]\<close>, for a positive \<open>batch_size\<close>\<close>
  "slice xs i n = take (nat n) (drop i xs)"

fun chunk_loop ::
  "io \<Rightarrow> int \<Rightarrow> (nat \<times> params) list \<Rightarrow> table \<Rightarrow> nat list \<Rightarrow> exn option \<times> table" where
  \<comment> \<open>the \<open>for i in range(...)\<close> loop of lines 146 to 150 inside its \<open>try\<close>: each
      chunk is one transaction. When \<open>executemany\<close> raises, \<open>conn.rollback()\<close> returns
      the table to the last commit and the exception leaves the loop.\<close>
  "chunk_loop env batch_size records t [] = (None, t)"
| "chunk_loop env batch_size records t (i # is) =
     (case executemany env t (slice records i batch_size) of
        Inl e \<Rightarrow> (Some e, t)
      | Inr t' \<Rightarrow> chunk_loop env batch_size records t' is)"

definition save_data ::
  "io \<Rightarrow> int \<Rightarrow> params list \<Rightarrow> storage \<times> flag_file \<Rightarrow> exn option \<times> storage \<times> flag_file" where
  \<comment> \<open>\<open>save_data(df, batch_size)\<close> with the rows of \<open>df\<close> given as the tuples of lines
      122 to 134. The result is the exception raised to the caller (\<open>None\<close>: normal
      return), the database and the flag file afterwards. The flag file is opened in
      mode \<open>'w'\<close>, so its old content is gone.\<close>
  "save_data env batch_size records w =
     (case w of (st, flag) \<Rightarrow>
        if records = [] then (None, st, flag)
        else
          (case st of
             Table t \<Rightarrow>
               (case py_range (length records) batch_size of
                  Inl e \<Rightarrow> (Some e, Table t, flag)
                | Inr starts \<Rightarrow>
                    (case chunk_loop env batch_size (enumerate 0 records) t starts of
                       (None, t') \<Rightarrow>
                         (None, Table t', Some [(flag_time env, length records)])
                     | (Some e, t') \<Rightarrow> (Some e, Table t', flag)))
           | _ \<Rightarrow>
               (case py_range (length records) batch_size of
                  Inl e \<Rightarrow> (Some e, NoTable, flag)
                | Inr [] \<Rightarrow> (None, NoTable, Some [(flag_time env, length records)])
                | Inr (i # is) \<Rightarrow>
                    (Some (OperationalError ''no such table: stock_daily''), NoTable, flag))))"


subsection \<open>Notions used to state the storage properties\<close>

definition chunks :: "int \<Rightarrow> 'a list \<Rightarrow> 'a list list" where
  \<comment> \<open>the chunks that the loop of \<open>save_data\<close> passes to \<open>executemany\<close>, in order\<close>
  "chunks batch_size xs =
     (case py_range (length xs) batch_size of
        Inl e \<Rightarrow> []
      | Inr starts \<Rightarrow> map (\<lambda>i. slice xs i batch_size) starts)"

definition key_of :: "'a daily_bar_scheme \<Rightarrow> string \<times> string" where
  "key_of r = (ts_code r, trade_date r)"

definition bar_of :: "'a daily_bar_scheme \<Rightarrow> daily_bar" where
  \<comment> \<open>the data columns of a row: everything but \<open>id\<close> and the timestamps\<close>
  "bar_of r = daily_bar.truncate r"

definition unique_keys :: "table \<Rightarrow> bool" where
  \<comment> \<open>the constraint \<open>UNIQUE(ts_code, trade_date)\<close>\<close>
  "unique_keys t = distinct (map key_of (rows t))"

definition stored_rows :: "storage \<Rightarrow> row list" where
  "stored_rows st = (case st of Table t \<Rightarrow> rows t | _ \<Rightarrow> [])"

definition well_formed :: "params \<Rightarrow> bool" where
  \<comment> \<open>a record that names its instrument and its trade date\<close>
  "well_formed p = (case p of (c, d, rest) \<Rightarrow> c \<noteq> None \<and> d \<noteq> None)"

definition has_key :: "params \<Rightarrow> row \<Rightarrow> bool" where
  \<comment> \<open>the row is stored under the key of the record\<close>
  "has_key p r = (case p of (c, d, rest) \<Rightarrow> c = Some (ts_code r) \<and> d = Some (trade_date r))"

definition view :: "table \<Rightarrow> (string \<times> string) \<rightharpoonup> daily_bar" where
  \<comment> \<open>the table read by key\<close>
  "view t = map_of (map (\<lambda>r. (key_of r, bar_of r)) (rows t))"

definition upd ::
  "((string \<times> string) \<rightharpoonup> daily_bar) \<Rightarrow> nat \<times> params \<Rightarrow> ((string \<times> string) \<rightharpoonup> daily_bar)" where
  \<comment> \<open>what one successful statement does to the table read by key\<close>
  "upd m kp = (case not_null_check (snd kp) of Some b \<Rightarrow> m(key_of b \<mapsto> b) | None \<Rightarrow> m)"



subsection \<open>Sample data for the storage properties\<close>

definition io_at :: "nat \<Rightarrow> io" where
  \<comment> \<open>every statement succeeds and reads the clock at \<open>now\<close>\<close>
  "io_at now = \<lparr>stmt_time = (\<lambda>k. now), stmt_error = (\<lambda>k. None), flag_time = now\<rparr>"

definition io_failing :: "nat \<Rightarrow> nat \<Rightarrow> io" where
  \<comment> \<open>as \<open>io_at\<close>, but the statement for record \<open>n\<close> hits a disk error\<close>
  "io_failing now n =
     \<lparr>stmt_time = (\<lambda>k. now),
      stmt_error = (\<lambda>k. if k = n then Some (OperationalError ''disk I/O error'') else None),
      flag_time = now\<rparr>"

definition sample_bar :: "string \<Rightarrow> string \<Rightarrow> real \<Rightarrow> params" where
  "sample_bar c d x = (Some c, Some d, Some x, Some x, Some x, Some x, Some 1000, Some 5000)"

definition five_records :: "params list" where
  "five_records =
     [sample_bar ''000001'' ''20240102'' 10, sample_bar ''000001'' ''20240103'' 11,
      sample_bar ''000001'' ''20240104'' 12, sample_bar ''000001'' ''20240105'' 13,
      sample_bar ''000001'' ''20240108'' 14]"

definition empty_table :: table where
  "empty_table = \<lparr>rows = [], seq = 0\<rparr>"

definition saved_once :: "exn option \<times> storage \<times> flag_file" where
  \<comment> \<open>the five sample records saved at time 100 into a fresh database\<close>
  "saved_once = save_data (io_at 100) 1000 five_records (init_database NoFile, None)"

definition saved_twice :: "exn option \<times> storage \<times> flag_file" where
  \<comment> \<open>the same batch saved again at time 200\<close>
  "saved_twice = save_data (io_at 200) 1000 five_records (snd saved_once)"

definition first_ingest :: "exn option \<times> storage \<times> flag_file" where
  \<comment> \<open>one bar of 000001 for 20240102, close 10, saved at time 100 into a fresh database\<close>
  "first_ingest =
     save_data (io_at 100) 1000 [sample_bar ''000001'' ''20240102'' 10] (init_database NoFile, None)"

definition re_ingest :: "exn option \<times> storage \<times> flag_file" where
  \<comment> \<open>the corrected bar for the same key, close 11, saved at time 200\<close>
  "re_ingest =
     save_data (io_at 200) 1000 [sample_bar ''000001'' ''20240102'' 11] (snd first_ingest)"

section \<open>Tables of the provider and of the formatter (data_fetcher.py)\<close>

text \<open>
  A cell of a pandas DataFrame: missing (\<open>None\<close>, \<open>NaN\<close>, \<open>NaT\<close>), a number or a text.
  A frame has its column names in order and its rows; a row gives the cell of each
  column (what it gives outside \<open>columns\<close> is never read).
\<close>

datatype cell = Null | Num real | Str string

record frame =
  columns :: "string list"
  data :: "(string \<Rightarrow> cell) list"

text \<open>
  What the job does to the outside world, in order: a request to the provider (symbol,
  start date, end date) and a pause of \<open>time.sleep\<close>.
\<close>

datatype event = Request string string string | Sleep real

text \<open>The stage of \<open>validate_data\<close> at which the database may raise.\<close>

datatype stage = Connect | Probe | CountRows | Integrity | Correctness | Consistency | Statistics

text \<open>
  Everything the pipeline takes from its surroundings:
  \<^item> \<open>date_str d\<close> is \<open>(datetime.now() - timedelta(days=d)).strftime('%Y%m%d')\<close>;
  \<^item> \<open>provider\<close> is \<open>ak.stock_zh_a_hist\<close> by symbol, start and end date: it raises, returns
    \<open>None\<close> or returns a frame;
  \<^item> \<open>directory\<close> is \<open>ak.stock_info_a_code_name()['code'].tolist()\<close>;
  \<^item> \<open>to_datetime\<close> is \<open>pd.to_datetime\<close> followed by \<open>.dt.strftime('%Y%m%d')\<close> on a
    column: pandas looks at the whole column (it infers one format from it) and either
    raises, or reads each cell that is not missing as a date (\<open>Some\<close>) or as no date,
    \<open>NaT\<close> (\<open>None\<close>: the empty text and the text \<open>NaT\<close>, for instance);
  \<^item> \<open>to_numeric\<close> is \<open>pd.to_numeric\<close> on one text (\<open>None\<close>: not a number);
  \<^item> \<open>storage_io\<close> is what \<open>save_data\<close> meets;
  \<^item> \<open>db_error\<close> is the exception, if any, that the database raises at a stage of
    \<open>validate_data\<close>.
\<close>

record env =
  date_str :: "int \<Rightarrow> string"
  provider :: "string \<Rightarrow> string \<Rightarrow> string \<Rightarrow> exn + frame option"
  directory :: "exn + string list"
  to_datetime :: "cell list \<Rightarrow> exn + (cell \<Rightarrow> string option)"
  to_numeric :: "string \<Rightarrow> real option"
  storage_io :: io
  db_error :: "stage \<Rightarrow> exn option"

text \<open>
  The provider's column names are Chinese; they are written here in pinyin:
  \<open>riqi\<close> (date), \<open>gupiaodaima\<close> (stock code), \<open>kaipan\<close> (open), \<open>shoupan\<close>
  (close), \<open>zuigao\<close> (high), \<open>zuidi\<close> (low), \<open>chengjiaoliang\<close> (volume),
  \<open>chengjiaoe\<close> (amount).
\<close>

definition required_columns :: "string list" where
  "required_columns =
     [''riqi'', ''kaipan'', ''shoupan'', ''zuigao'', ''zuidi'', ''chengjiaoliang'', ''chengjiaoe'']"

definition column_mapping :: "(string \<times> string) list" where
  "column_mapping =
     [(''riqi'', ''trade_date''), (''gupiaodaima'', ''ts_code''), (''kaipan'', ''open''),
      (''shoupan'', ''close''), (''zuigao'', ''high''), (''zuidi'', ''low''),
      (''chengjiaoliang'', ''volume''), (''chengjiaoe'', ''amount'')]"

definition numeric_columns :: "string list" where
  "numeric_columns = [''open'', ''high'', ''low'', ''close'', ''volume'', ''amount'']"

definition empty_frame :: frame where
  \<comment> \<open>\<open>pd.DataFrame()\<close>\<close>
  "empty_frame = \<lparr>columns = [], data = []\<rparr>"

definition is_empty :: "frame \<Rightarrow> bool" where
  \<comment> \<open>\<open>df.empty\<close>: no column or no row\<close>
  "is_empty df = (columns df = [] \<or> data df = [])"

definition is_space :: "char \<Rightarrow> bool" where
  \<comment> \<open>the ASCII characters that \<open>str.strip()\<close> removes\<close>
  "is_space c =
     (c \<in> set [CHR '' '', CHR 0x09, CHR 0x0A, CHR 0x0B, CHR 0x0C, CHR 0x0D,
                CHR 0x1C, CHR 0x1D, CHR 0x1E, CHR 0x1F])"

definition strip :: "string \<Rightarrow> string" where
  \<comment> \<open>\<open>str.strip()\<close>\<close>
  "strip s = rev (dropWhile is_space (rev (dropWhile is_space s)))"

definition strip_columns :: "frame \<Rightarrow> frame" where
  \<comment> \<open>\<open>df.columns = df.columns.str.strip()\<close>: each row now answers to the stripped
      name of a column (the first such column, should two names collide)\<close>
  "strip_columns df =
     \<lparr>columns = map strip (columns df),
      data = map (\<lambda>r c'. case find (\<lambda>c. strip c = c') (columns df) of
                           Some c \<Rightarrow> r c | None \<Rightarrow> Null) (data df)\<rparr>"

definition assign_column :: "frame \<Rightarrow> string \<Rightarrow> cell \<Rightarrow> frame" where
  \<comment> \<open>\<open>df[col] = value\<close>\<close>
  "assign_column df col v =
     \<lparr>columns = (if col \<in> set (columns df) then columns df else columns df @ [col]),
      data = map (\<lambda>r. r(col := v)) (data df)\<rparr>"

definition try_except :: "exn + 'a \<Rightarrow> (exn \<Rightarrow> exn + 'a) \<Rightarrow> exn + 'a" where
  \<comment> \<open>\<open>try: body  except Exception as e: handler\<close>\<close>
  "try_except body handler = (case body of Inl e \<Rightarrow> handler e | Inr v \<Rightarrow> Inr v)"

definition remove_hyphens :: "string \<Rightarrow> string" where
  \<comment> \<open>\<open>s.replace('-', '')\<close>\<close>
  "remove_hyphens s = filter (\<lambda>c. c \<noteq> CHR ''-'') s"

definition fetch_stock_daily_data ::
  "env \<Rightarrow> string \<Rightarrow> string option \<Rightarrow> string option \<Rightarrow> (exn + frame option) \<times> event list" where
  \<comment> \<open>the result (an exception raised to the caller, \<open>None\<close>, or a frame) and the
      request made\<close>
  "fetch_stock_daily_data env stock_code start_date end_date =
     (let end_date' = (case end_date of None \<Rightarrow> date_str env 0 | Some d \<Rightarrow> d);
          start_date' = (case start_date of None \<Rightarrow> date_str env 365 | Some d \<Rightarrow> d);
          start_arg = remove_hyphens start_date';
          end_arg = remove_hyphens end_date'
      in (try_except
            (case provider env stock_code start_arg end_arg of
               Inl e \<Rightarrow> Inl e
             | Inr None \<Rightarrow> Inr None
             | Inr (Some df) \<Rightarrow>
                 if \<not> is_empty df then
                   (let df' = strip_columns df in
                    if list_all (\<lambda>col. col \<in> set (columns df')) required_columns
                    then Inr (Some (assign_column df' ''gupiaodaima'' (Str stock_code)))
                    else Inr None)
                 else Inr None)
            (\<lambda>e. Inr None),
          [Request stock_code start_arg end_arg]))"

definition concat_frames :: "frame list \<Rightarrow> frame" where
  \<comment> \<open>\<open>pd.concat(frames, ignore_index=True)\<close> of at least one frame: the union of the
      columns, the rows one after the other, a cell missing where a frame lacks a column\<close>
  "concat_frames fs =
     \<lparr>columns = remdups (concat (map columns fs)),
      data = concat (map (\<lambda>f. map (\<lambda>r c. if c \<in> set (columns f) then r c else Null) (data f)) fs)\<rparr>"

fun fetch_loop ::
  "env \<Rightarrow> string \<Rightarrow> string \<Rightarrow> real \<Rightarrow> string list \<Rightarrow> frame list \<Rightarrow> event list
   \<Rightarrow> frame list \<times> event list" where
  \<comment> \<open>the loop of lines 118 to 137 with \<open>all_data\<close> and the events so far; an
      exception in the body skips the pause\<close>
  "fetch_loop env start_date end_date delay [] all_data evs = (all_data, evs)"
| "fetch_loop env start_date end_date delay (stock_code # rest) all_data evs =
     (case fetch_stock_daily_data env stock_code (Some start_date) (Some end_date) of
        (Inl e, evs') \<Rightarrow> fetch_loop env start_date end_date delay rest all_data (evs @ evs')
      | (Inr res, evs') \<Rightarrow>
          fetch_loop env start_date end_date delay rest
            (case res of
               Some df \<Rightarrow> if \<not> is_empty df then all_data @ [df] else all_data
             | None \<Rightarrow> all_data)
            (evs @ evs' @ (if delay > 0 then [Sleep delay] else [])))"

definition fetch_all_stock_data :: "env \<Rightarrow> int \<Rightarrow> real \<Rightarrow> (exn + frame) \<times> event list" where
  "fetch_all_stock_data env days delay =
     (case directory env of
        Inl e \<Rightarrow> (Inl e, [])
      | Inr stock_codes \<Rightarrow>
          (let end_date = date_str env 0;
               start_date = date_str env days
           in case fetch_loop env start_date end_date delay stock_codes [] [] of
                (all_data, evs) \<Rightarrow>
                  (if all_data \<noteq> [] then Inr (concat_frames all_data) else Inr empty_frame, evs)))"

subsection \<open>The formatter\<close>

definition rename_columns :: "frame \<Rightarrow> exn + frame" where
  \<comment> \<open>lines 165 to 182: the mapped columns that the input has, under their new names.
      With none of them the new frame stays without rows. Where the input has the name
      of a mapped column more than once, \<open>df[old_col]\<close> is a frame and the assignment
      raises.\<close>
  "rename_columns df =
     (let present = filter (\<lambda>(old_col, new_col). old_col \<in> set (columns df)) column_mapping
      in case find (\<lambda>(old_col, new_col). 1 < count_list (columns df) old_col) present of
           Some (old_col, new_col) \<Rightarrow>
             Inl (ValueError ''Cannot set a DataFrame with multiple columns to the single column'')
         | None \<Rightarrow>
             Inr \<lparr>columns = map snd present,
                  data = (if present = [] then []
                          else map (\<lambda>r new_col.
                                      case find (\<lambda>(old_col, n). n = new_col) present of
                                        Some (old_col, n) \<Rightarrow> r old_col
                                      | None \<Rightarrow> Null) (data df))\<rparr>)"

definition date_cell :: "(cell \<Rightarrow> string option) \<Rightarrow> cell \<Rightarrow> cell" where
  \<comment> \<open>one cell of the converted column: a missing date stays missing, a cell that
      pandas reads as no date becomes missing, a date becomes its text \<open>YYYYMMDD\<close>\<close>
  "date_cell reading c =
     (case c of
        Null \<Rightarrow> Null
      | _ \<Rightarrow> (case reading c of None \<Rightarrow> Null | Some s \<Rightarrow> Str s))"

definition convert_dates :: "env \<Rightarrow> (string \<Rightarrow> cell) list \<Rightarrow> exn + (string \<Rightarrow> cell) list" where
  \<comment> \<open>line 187: the column \<open>trade_date\<close> is converted as a whole, which may raise\<close>
  "convert_dates env rs =
     (case to_datetime env (map (\<lambda>r. r ''trade_date'') rs) of
        Inl e \<Rightarrow> Inl e
      | Inr reading \<Rightarrow>
          Inr (map (\<lambda>r. r(''trade_date'' := date_cell reading (r ''trade_date''))) rs))"

definition numeric_cell :: "env \<Rightarrow> cell \<Rightarrow> cell" where
  \<comment> \<open>\<open>pd.to_numeric(..., errors='coerce')\<close> on one cell\<close>
  "numeric_cell env c =
     (case c of
        Null \<Rightarrow> Null
      | Num x \<Rightarrow> Num x
      | Str s \<Rightarrow> (case to_numeric env s of Some x \<Rightarrow> Num x | None \<Rightarrow> Null))"

definition coerce_numeric :: "env \<Rightarrow> string list \<Rightarrow> (string \<Rightarrow> cell) \<Rightarrow> (string \<Rightarrow> cell)" where
  \<comment> \<open>the loop of lines 191 to 193 on one row, for the columns of the frame\<close>
  "coerce_numeric env cols r =
     (\<lambda>c. if c \<in> set numeric_columns \<and> c \<in> set cols then numeric_cell env (r c) else r c)"

definition dropna :: "frame \<Rightarrow> frame" where
  \<comment> \<open>\<open>df.dropna()\<close>: the rows without a missing cell\<close>
  "dropna df = df\<lparr>data := filter (\<lambda>r. list_all (\<lambda>c. r c \<noteq> Null) (columns df)) (data df)\<rparr>"

definition format_data_for_storage :: "env \<Rightarrow> frame option \<Rightarrow> exn + frame" where
  "format_data_for_storage env df_opt =
     (case df_opt of
        None \<Rightarrow> Inr empty_frame
      | Some df \<Rightarrow>
          if is_empty df then Inr empty_frame
          else
            (case rename_columns df of
               Inl e \<Rightarrow> Inl e
             | Inr formatted_df \<Rightarrow>
                 (case (if ''trade_date'' \<in> set (columns formatted_df)
                        then convert_dates env (data formatted_df)
                        else Inr (data formatted_df)) of
                    Inl e \<Rightarrow> Inl e
                  | Inr dated \<Rightarrow>
                      Inr (dropna \<lparr>columns = columns formatted_df,
                                   data = map (coerce_numeric env (columns formatted_df))
                                            dated\<rparr>))))"

subsection \<open>Notions used to state what the formatter keeps\<close>

definition present_columns :: "frame \<Rightarrow> (string \<times> string) list" where
  \<comment> \<open>the mapped columns that the input has, with their new names\<close>
  "present_columns df = filter (\<lambda>(old_col, new_col). old_col \<in> set (columns df)) column_mapping"

definition duplicated :: "frame \<Rightarrow> bool" where
  \<comment> \<open>the input has the name of a mapped column more than once\<close>
  "duplicated df = list_ex (\<lambda>(old_col, new_col). 1 < count_list (columns df) old_col) column_mapping"

definition date_reading :: "env \<Rightarrow> frame \<Rightarrow> exn + (cell \<Rightarrow> cell)" where
  \<comment> \<open>how the date column of the input is read, if the input has one: pandas refuses
      the column, or each of its cells becomes a date text or missing\<close>
  "date_reading env df =
     (if ''riqi'' \<in> set (columns df)
      then (case to_datetime env (map (\<lambda>r. r ''riqi'') (data df)) of
              Inl e \<Rightarrow> Inl e
            | Inr reading \<Rightarrow> Inr (date_cell reading))
      else Inr (\<lambda>c. c))"

definition formatted_cell :: "env \<Rightarrow> (cell \<Rightarrow> cell) \<Rightarrow> string \<Rightarrow> cell \<Rightarrow> cell" where
  \<comment> \<open>a cell of the input as it is stored under the new column name: the date as it
      was read, a numeric field coerced, the instrument code as it is\<close>
  "formatted_cell env g new_col c =
     (if new_col = ''trade_date'' then g c
      else if new_col \<in> set numeric_columns then numeric_cell env c
      else c)"

definition formatted_row :: "env \<Rightarrow> frame \<Rightarrow> (cell \<Rightarrow> cell) \<Rightarrow> (string \<Rightarrow> cell) \<Rightarrow> (string \<Rightarrow> cell)" where
  \<comment> \<open>a row of the input under the new column names, each cell formatted\<close>
  "formatted_row env df g r =
     (\<lambda>new_col. case find (\<lambda>(old_col, n). n = new_col) (present_columns df) of
                   Some (old_col, n) \<Rightarrow> formatted_cell env g n (r old_col)
                 | None \<Rightarrow> Null)"

definition kept :: "env \<Rightarrow> frame \<Rightarrow> (cell \<Rightarrow> cell) \<Rightarrow> (string \<Rightarrow> cell) \<Rightarrow> bool" where
  \<comment> \<open>the input has a mapped column, and in this row no mapped column of the input is
      missing once it is formatted\<close>
  "kept env df g r =
     (present_columns df \<noteq> []
      \<and> list_all (\<lambda>(old_col, new_col). formatted_cell env g new_col (r old_col) \<noteq> Null)
           (present_columns df))"

section \<open>Queries and the incremental update (data_storage.py)\<close>

definition sql_max :: "string list \<Rightarrow> string option" where
  \<comment> \<open>\<open>MAX(trade_date)\<close>: \<open>NULL\<close> over no row, else the largest text\<close>
  "sql_max xs = (case xs of [] \<Rightarrow> None | x # rest \<Rightarrow> Some (fold max rest x))"

definition get_latest_date_for_stock :: "storage \<Rightarrow> string \<Rightarrow> exn + string option" where
  \<comment> \<open>\<open>if result and result[0]\<close>: the one row of the aggregate is truthy, its field
      is truthy unless it is \<open>None\<close> or the empty text. Without the table the query
      raises.\<close>
  "get_latest_date_for_stock st code =
     (case st of
        Table t \<Rightarrow>
          (case sql_max (map trade_date (filter (\<lambda>r. ts_code r = code) (rows t))) of
             Some d \<Rightarrow> if d \<noteq> [] then Inr (Some d) else Inr None
           | None \<Rightarrow> Inr None)
      | _ \<Rightarrow> Inl (OperationalError ''no such table: stock_daily''))"

definition get_all_stock_codes_from_db :: "storage \<Rightarrow> exn + string list" where
  \<comment> \<open>\<open>SELECT DISTINCT ts_code FROM stock_daily ORDER BY ts_code\<close>\<close>
  "get_all_stock_codes_from_db st =
     (case st of
        Table t \<Rightarrow> Inr (sort (remdups (map ts_code (rows t))))
      | _ \<Rightarrow> Inl (OperationalError ''no such table: stock_daily''))"

definition fetch_start :: "storage \<Rightarrow> string \<Rightarrow> string \<Rightarrow> exn + string option" where
  \<comment> \<open>lines 243 to 254: the start of the window to fetch for one instrument, \<open>None\<close>
      where the loop says \<open>continue\<close>. Dates are compared as text.\<close>
  "fetch_start st start_date code =
     (case get_latest_date_for_stock st code of
        Inl e \<Rightarrow> Inl e
      | Inr (Some latest_date) \<Rightarrow>
          if latest_date < start_date then Inr (Some latest_date) else Inr None
      | Inr None \<Rightarrow> Inr (Some start_date))"

definition update_one ::
  "env \<Rightarrow> storage \<Rightarrow> string \<Rightarrow> string \<Rightarrow> string \<Rightarrow> frame option \<times> event list" where
  \<comment> \<open>the body of the loop of lines 240 to 268 for one instrument: the frame it
      appends to \<open>all_new_data\<close>, if any, and the requests it makes. Any exception in the
      body is logged and the loop goes on.\<close>
  "update_one env st start_date end_date code =
     (case fetch_start st start_date code of
        Inl e \<Rightarrow> (None, [])
      | Inr None \<Rightarrow> (None, [])
      | Inr (Some start) \<Rightarrow>
          (case fetch_stock_daily_data env code (Some start) (Some end_date) of
             (Inl e, evs) \<Rightarrow> (None, evs)
           | (Inr None, evs) \<Rightarrow> (None, evs)
           | (Inr (Some df), evs) \<Rightarrow>
               if \<not> is_empty df then
                 (case format_data_for_storage env (Some df) of
                    Inl e \<Rightarrow> (None, evs)
                  | Inr formatted_df \<Rightarrow>
                      if \<not> is_empty formatted_df then (Some formatted_df, evs) else (None, evs))
               else (None, evs)))"

fun update_loop ::
  "env \<Rightarrow> storage \<Rightarrow> string \<Rightarrow> string \<Rightarrow> string list \<Rightarrow> frame list \<Rightarrow> event list
   \<Rightarrow> frame list \<times> event list" where
  "update_loop env st start_date end_date [] all_new_data evs = (all_new_data, evs)"
| "update_loop env st start_date end_date (code # rest) all_new_data evs =
     (case update_one env st start_date end_date code of
        (Some df, evs') \<Rightarrow>
          update_loop env st start_date end_date rest (all_new_data @ [df]) (evs @ evs')
      | (None, evs') \<Rightarrow>
          update_loop env st start_date end_date rest all_new_data (evs @ evs'))"

definition text_field :: "frame \<Rightarrow> (string \<Rightarrow> cell) \<Rightarrow> string \<Rightarrow> string option" where
  \<comment> \<open>\<open>row.get(col, '')\<close> bound to a \<open>TEXT\<close> column. The formatter leaves texts in
      \<open>ts_code\<close> and \<open>trade_date\<close>; a number there is not modelled and reads as
      missing.\<close>
  "text_field df r col =
     (if col \<in> set (columns df)
      then (case r col of Str s \<Rightarrow> Some s | _ \<Rightarrow> None)
      else Some [])"

definition real_field :: "frame \<Rightarrow> (string \<Rightarrow> cell) \<Rightarrow> string \<Rightarrow> real option" where
  \<comment> \<open>\<open>row.get(col)\<close> bound to a \<open>REAL\<close> column. The formatter leaves numbers in the
      numeric columns; a text there is not modelled and reads as missing.\<close>
  "real_field df r col =
     (if col \<in> set (columns df)
      then (case r col of Num x \<Rightarrow> Some x | _ \<Rightarrow> None)
      else None)"

definition records_of :: "frame \<Rightarrow> params list" where
  \<comment> \<open>lines 122 to 134 of \<open>save_data\<close>: one tuple per row of the frame\<close>
  "records_of df =
     (if is_empty df then []
      else map (\<lambda>r. (text_field df r ''ts_code'', text_field df r ''trade_date'',
                      real_field df r ''open'', real_field df r ''high'',
                      real_field df r ''low'', real_field df r ''close'',
                      real_field df r ''volume'', real_field df r ''amount'')) (data df))"

definition update_incremental_data ::
  "env \<Rightarrow> int \<Rightarrow> storage \<times> flag_file
   \<Rightarrow> (exn + bool) \<times> storage \<times> flag_file \<times> event list" where
  \<comment> \<open>the value returned or the exception raised, the database and the flag file
      afterwards, and the requests and pauses in order\<close>
  "update_incremental_data env days w =
     (case w of (st, flag) \<Rightarrow>
        if \<not> check_database_exists st then (Inr False, st, flag, [])
        else
          (case get_all_stock_codes_from_db st of
             Inl e \<Rightarrow> (Inl e, st, flag, [])
           | Inr stock_codes \<Rightarrow>
               if stock_codes = [] then (Inr False, st, flag, [])
               else
                 (let end_date = date_str env 0;
                      start_date = date_str env days
                  in case update_loop env st start_date end_date stock_codes [] [] of
                       (all_new_data, evs) \<Rightarrow>
                         if all_new_data \<noteq> [] then
                           (case save_data (storage_io env) 1000
                                   (records_of (concat_frames all_new_data)) (st, flag) of
                              (Some e, st', flag') \<Rightarrow> (Inl e, st', flag', evs)
                            | (None, st', flag') \<Rightarrow> (Inr True, st', flag', evs))
                         else (Inr False, st, flag, evs))))"

subsection \<open>Notions used to state the window policy\<close>

definition max_stored_date :: "table \<Rightarrow> string \<Rightarrow> string option" where
  \<comment> \<open>the largest stored trade date of the instrument, \<open>None\<close> without stored rows\<close>
  "max_stored_date t code =
     (let dates = map trade_date (filter (\<lambda>r. ts_code r = code) (rows t))
      in if dates = [] then None else Some (Max (set dates)))"

definition stored_latest :: "table \<Rightarrow> string \<Rightarrow> string option" where
  \<comment> \<open>the largest stored trade date of the instrument, \<open>None\<close> without stored rows
      and when that date is the empty text\<close>
  "stored_latest t code =
     (case max_stored_date t code of
        None \<Rightarrow> None
      | Some d \<Rightarrow> if d = [] then None else Some d)"

definition window_policy :: "string \<Rightarrow> string \<Rightarrow> string option \<Rightarrow> (string \<times> string) option" where
  \<comment> \<open>the three cases of the policy: the window to fetch, \<open>None\<close> to skip the
      instrument\<close>
  "window_policy window_start today latest =
     (case latest of
        None \<Rightarrow> Some (window_start, today)
      | Some d \<Rightarrow> if d < window_start then Some (d, today) else None)"

definition planned_requests ::
  "env \<Rightarrow> int \<Rightarrow> table \<Rightarrow> (string \<Rightarrow> string option) \<Rightarrow> event list" where
  \<comment> \<open>the requests that the policy asks for, instrument after instrument in the order
      of their codes, given the latest date of each instrument\<close>
  "planned_requests env days t latest_of =
     concat (map (\<lambda>code. case window_policy (date_str env days) (date_str env 0) (latest_of code) of
                            None \<Rightarrow> []
                          | Some (a, b) \<Rightarrow> [Request code (remove_hyphens a) (remove_hyphens b)])
               (sort (remdups (map ts_code (rows t)))))"

section \<open>The validator (data_validator.py)\<close>

text \<open>
  The messages of the report, one constructor per message text, with the count that the
  text carries. \<open>severe\<close> is the test of line 82 for the tag, two Chinese characters for
  ``severe'', that only the two price messages of lines 173 and 183 carry.
\<close>

datatype message =
    NoDatabaseFile
  | NoDataTable
  | NoData
  | NullKeys nat
  | DuplicateKeys nat
  | BadDateFormat nat
  | BadPrice nat
  | HighBelowLow nat
  | ExtremePrice nat
  | NegativeVolume nat
  | NegativeAmount nat
  | FewRecords nat
  | FutureDates nat
  | CheckFailed exn

fun severe :: "message \<Rightarrow> bool" where
  "severe (BadPrice n) = True"
| "severe (HighBelowLow n) = True"
| "severe m = False"

datatype stat = Count nat | DateRange "string option" "string option" | Ratio real

record report =
  is_valid :: bool
  errors :: "message list"
  warnings :: "message list"
  statistics :: "string \<rightharpoonup> stat"

definition sql_count :: "('a \<Rightarrow> bool) \<Rightarrow> 'a list \<Rightarrow> nat" where
  \<comment> \<open>\<open>SELECT COUNT(*) ... WHERE p\<close>\<close>
  "sql_count p xs = length (filter p xs)"

definition cmp :: "(real \<Rightarrow> bool) \<Rightarrow> real option \<Rightarrow> bool" where
  \<comment> \<open>a comparison in a \<open>WHERE\<close> clause: not satisfied by \<open>NULL\<close>\<close>
  "cmp p v = (case v of Some x \<Rightarrow> p x | None \<Rightarrow> False)"

definition is_digit :: "char \<Rightarrow> bool" where
  "is_digit c = (CHR ''0'' \<le> c \<and> c \<le> CHR ''9'')"

definition check_data_integrity :: "row list \<Rightarrow> message list" where
  \<comment> \<open>\<open>ts_code\<close> and \<open>trade_date\<close> are \<open>NOT NULL\<close>, so the first count is over no row\<close>
  "check_data_integrity rs =
     (let null_count = sql_count (\<lambda>r. False) rs;
          keys = map (\<lambda>r. (ts_code r, trade_date r)) rs;
          duplicates = filter (\<lambda>k. count_list keys k > 1) (remdups keys);
          invalid_date_count =
            sql_count (\<lambda>r. length (trade_date r) \<noteq> 8 \<or> \<not> list_all is_digit (trade_date r)) rs
      in (if null_count > 0 then [NullKeys null_count] else [])
         @ (if duplicates \<noteq> [] then [DuplicateKeys (length duplicates)] else [])
         @ (if invalid_date_count > 0 then [BadDateFormat invalid_date_count] else []))"

definition check_data_correctness :: "row list \<Rightarrow> message list" where
  "check_data_correctness rs =
     (let invalid_price_count =
            sql_count (\<lambda>r. cmp (\<lambda>x. x \<le> 0) (open r) \<or> cmp (\<lambda>x. x \<le> 0) (high r)
                          \<or> cmp (\<lambda>x. x \<le> 0) (low r) \<or> cmp (\<lambda>x. x \<le> 0) (close r)) rs;
          invalid_range_count =
            sql_count (\<lambda>r. case (high r, low r) of (Some h, Some l) \<Rightarrow> h < l | _ \<Rightarrow> False) rs;
          extreme_price_count =
            sql_count (\<lambda>r. cmp (\<lambda>x. x > 10000) (open r) \<or> cmp (\<lambda>x. x > 10000) (high r)
                          \<or> cmp (\<lambda>x. x > 10000) (low r) \<or> cmp (\<lambda>x. x > 10000) (close r)
                          \<or> cmp (\<lambda>x. x < 0.01) (open r) \<or> cmp (\<lambda>x. x < 0.01) (high r)
                          \<or> cmp (\<lambda>x. x < 0.01) (low r) \<or> cmp (\<lambda>x. x < 0.01) (close r)) rs;
          invalid_volume_count = sql_count (\<lambda>r. cmp (\<lambda>x. x < 0) (volume r)) rs;
          invalid_amount_count = sql_count (\<lambda>r. cmp (\<lambda>x. x < 0) (amount r)) rs
      in (if invalid_price_count > 0 then [BadPrice invalid_price_count] else [])
         @ (if invalid_range_count > 0 then [HighBelowLow invalid_range_count] else [])
         @ (if extreme_price_count > 0 then [ExtremePrice extreme_price_count] else [])
         @ (if invalid_volume_count > 0 then [NegativeVolume invalid_volume_count] else [])
         @ (if invalid_amount_count > 0 then [NegativeAmount invalid_amount_count] else []))"

definition check_data_consistency :: "string \<Rightarrow> row list \<Rightarrow> message list" where
  \<comment> \<open>\<open>today\<close> is \<open>datetime.now().strftime('%Y%m%d')\<close>\<close>
  "check_data_consistency today rs =
     (let codes = map ts_code rs;
          low_record_stocks = filter (\<lambda>c. count_list codes c < 10) (remdups codes);
          future_date_count = sql_count (\<lambda>r. trade_date r > today) rs
      in (if low_record_stocks \<noteq> [] then [FewRecords (length low_record_stocks)] else [])
         @ (if future_date_count > 0 then [FutureDates future_date_count] else []))"

definition sql_min :: "string list \<Rightarrow> string option" where
  "sql_min xs = (case xs of [] \<Rightarrow> None | x # rest \<Rightarrow> Some (fold min rest x))"

definition lookup :: "(string \<rightharpoonup> stat) \<Rightarrow> string \<Rightarrow> exn + stat" where
  \<comment> \<open>\<open>stats[key]\<close>\<close>
  "lookup d k = (case d k of None \<Rightarrow> Inl (KeyError k) | Some v \<Rightarrow> Inr v)"

definition as_real :: "stat \<Rightarrow> real" where
  "as_real v = (case v of Count n \<Rightarrow> real n | Ratio x \<Rightarrow> x | DateRange a b \<Rightarrow> 0)"

definition get_detailed_statistics :: "row list \<Rightarrow> exn + (string \<rightharpoonup> stat)" where
  \<comment> \<open>\<open>stats\<close> is the function's own new dictionary: the key \<open>'total_records'\<close> that
      lines 286 and 297 read was stored by the caller in \<open>results['statistics']\<close>,
      not here\<close>
  "get_detailed_statistics rs =
     (let stats = Map.empty;
          stats = stats(''stock_count'' \<mapsto> Count (length (remdups (map ts_code rs))));
          stats = stats(''date_range'' \<mapsto>
                    DateRange (sql_min (map trade_date rs)) (sql_max (map trade_date rs)));
          distinct_dates = length (remdups (map trade_date rs));
          complete_records =
            sql_count (\<lambda>r. open r \<noteq> None \<and> high r \<noteq> None \<and> low r \<noteq> None
                          \<and> close r \<noteq> None \<and> volume r \<noteq> None \<and> amount r \<noteq> None) rs
      in case (if distinct_dates > 0
               then (case lookup stats ''total_records'' of
                       Inl e \<Rightarrow> Inl e
                     | Inr v \<Rightarrow>
                         Inr (stats(''avg_records_per_day'' \<mapsto>
                                Ratio (as_real v / real distinct_dates))))
               else Inr stats) of
           Inl e \<Rightarrow> Inl e
         | Inr stats \<Rightarrow>
             (case lookup stats ''total_records'' of
                Inl e \<Rightarrow> Inl e
              | Inr v \<Rightarrow>
                  if as_real v > 0
                  then Inr (stats(''completeness_percentage'' \<mapsto>
                              Ratio (real complete_records / as_real v * 100)))
                  else Inr stats))"

text \<open>
  The body of the \<open>try\<close> of \<open>validate_data\<close> is a sequence of steps on the dictionary
  \<open>results\<close>. A step goes on to the next, returns \<open>results\<close>, or raises; in each case
  \<open>results\<close> is as the step left it.
\<close>

datatype flow = Next | Return | Raise exn

fun run_steps :: "(report \<Rightarrow> flow \<times> report) list \<Rightarrow> report \<Rightarrow> flow \<times> report" where
  "run_steps [] results = (Next, results)"
| "run_steps (s # ss) results =
     (case s results of
        (Next, results') \<Rightarrow> run_steps ss results'
      | (Return, results') \<Rightarrow> (Return, results')
      | (Raise e, results') \<Rightarrow> (Raise e, results'))"

definition fail_with :: "message \<Rightarrow> report \<Rightarrow> report" where
  \<comment> \<open>\<open>results['is_valid'] = False; results['errors'].append(msg)\<close>\<close>
  "fail_with msg results = results\<lparr>is_valid := False, errors := errors results @ [msg]\<rparr>"

definition step_exists :: "storage \<Rightarrow> report \<Rightarrow> flow \<times> report" where
  "step_exists st results =
     (if st = NoFile then (Return, fail_with NoDatabaseFile results) else (Next, results))"

definition step_connect :: "env \<Rightarrow> report \<Rightarrow> flow \<times> report" where
  "step_connect env results =
     (case db_error env Connect of Some e \<Rightarrow> (Raise e, results) | None \<Rightarrow> (Next, results))"

definition step_probe :: "env \<Rightarrow> storage \<Rightarrow> report \<Rightarrow> flow \<times> report" where
  "step_probe env st results =
     (case db_error env Probe of
        Some e \<Rightarrow> (Raise e, results)
      | None \<Rightarrow>
          (case st of
             Table t \<Rightarrow> (Next, results)
           | _ \<Rightarrow> (Return, fail_with NoDataTable results)))"

definition step_count :: "env \<Rightarrow> storage \<Rightarrow> report \<Rightarrow> flow \<times> report" where
  "step_count env st results =
     (case db_error env CountRows of
        Some e \<Rightarrow> (Raise e, results)
      | None \<Rightarrow>
          (let total_count = length (stored_rows st) in
           if total_count = 0 then (Return, fail_with NoData results)
           else (Next, results\<lparr>statistics :=
                                (statistics results)(''total_records'' \<mapsto> Count total_count)\<rparr>)))"

definition step_integrity :: "env \<Rightarrow> storage \<Rightarrow> report \<Rightarrow> flow \<times> report" where
  "step_integrity env st results =
     (case db_error env Integrity of
        Some e \<Rightarrow> (Raise e, results)
      | None \<Rightarrow>
          (let integrity_issues = check_data_integrity (stored_rows st) in
           (Next, results\<lparr>warnings := warnings results @ integrity_issues\<rparr>)))"

definition step_correctness :: "env \<Rightarrow> storage \<Rightarrow> report \<Rightarrow> flow \<times> report" where
  "step_correctness env st results =
     (case db_error env Correctness of
        Some e \<Rightarrow> (Raise e, results)
      | None \<Rightarrow>
          (let correctness_issues = check_data_correctness (stored_rows st);
               results = results\<lparr>warnings := warnings results @ correctness_issues\<rparr>
           in if list_ex severe correctness_issues
              then (Next, results\<lparr>is_valid := False,
                                  errors := errors results @ filter severe correctness_issues\<rparr>)
              else (Next, results)))"

definition step_consistency :: "env \<Rightarrow> storage \<Rightarrow> report \<Rightarrow> flow \<times> report" where
  "step_consistency env st results =
     (case db_error env Consistency of
        Some e \<Rightarrow> (Raise e, results)
      | None \<Rightarrow>
          (let consistency_issues = check_data_consistency (date_str env 0) (stored_rows st) in
           (Next, results\<lparr>warnings := warnings results @ consistency_issues\<rparr>)))"

definition step_statistics :: "env \<Rightarrow> storage \<Rightarrow> report \<Rightarrow> flow \<times> report" where
  "step_statistics env st results =
     (case db_error env Statistics of
        Some e \<Rightarrow> (Raise e, results)
      | None \<Rightarrow>
          (case get_detailed_statistics (stored_rows st) of
             Inl e \<Rightarrow> (Raise e, results)
           | Inr stats \<Rightarrow> (Return, results\<lparr>statistics := statistics results ++ stats\<rparr>)))"

definition new_results :: report where
  "new_results = \<lparr>is_valid = True, errors = [], warnings = [], statistics = Map.empty\<rparr>"

definition validate_steps :: "env \<Rightarrow> storage \<Rightarrow> (report \<Rightarrow> flow \<times> report) list" where
  "validate_steps env st =
     [step_exists st, step_connect env, step_probe env st, step_count env st,
      step_integrity env st, step_correctness env st, step_consistency env st,
      step_statistics env st]"

definition validate_data :: "env \<Rightarrow> storage \<Rightarrow> exn + report" where
  \<comment> \<open>the \<open>try\<close> with its handler: \<open>Inl\<close> would be an exception raised to the caller\<close>
  "validate_data env st =
     (case run_steps (validate_steps env st) new_results of
        (Raise e, results) \<Rightarrow> Inr (fail_with (CheckFailed e) results)
      | (_, results) \<Rightarrow> Inr results)"

section \<open>The daily job (main.py)\<close>

text \<open>
  What one run of \<open>daily_job\<close> leaves: the exception that left the job (if any), the
  database and flag file, the requests and pauses made, the validation report printed
  (if any), and the exception that the job's handler logged (if any).
\<close>

record job_result =
  escaped :: "exn option"
  storage_after :: storage
  flag_after :: flag_file
  trace :: "event list"
  printed :: "report option"
  logged :: "exn option"

definition daily_job :: "env \<Rightarrow> storage \<times> flag_file \<Rightarrow> job_result" where
  "daily_job env w =
     (case update_incremental_data env 1 w of
        (Inl e, st, flag, evs) \<Rightarrow>
          \<lparr>escaped = None, storage_after = st, flag_after = flag, trace = evs,
           printed = None, logged = Some e\<rparr>
      | (Inr updated, st, flag, evs) \<Rightarrow>
          (case validate_data env st of
             Inl e \<Rightarrow>
               \<lparr>escaped = None, storage_after = st, flag_after = flag, trace = evs,
                printed = None, logged = Some e\<rparr>
           | Inr results \<Rightarrow>
               \<lparr>escaped = None, storage_after = st, flag_after = flag, trace = evs,
                printed = Some results, logged = None\<rparr>))"

section \<open>Sample surroundings and data\<close>

definition sample_row :: "nat \<Rightarrow> string \<Rightarrow> string \<Rightarrow> real \<Rightarrow> real \<Rightarrow> row" where
  \<comment> \<open>a stored row with the given id, key, price (for open, high, low and close) and
      volume\<close>
  "sample_row n c d x v =
     \<lparr>ts_code = c, trade_date = d, open = Some x, high = Some x, low = Some x,
      close = Some x, volume = Some v, amount = Some 5000,
      rowid = n, created_at = 50, updated_at = 50\<rparr>"

definition stale_table :: table where
  \<comment> \<open>000001 and 000003 stop before 20240109, 000002 reaches 20240110\<close>
  "stale_table =
     \<lparr>rows = [sample_row 1 ''000001'' ''20240102'' 10 1000,
              sample_row 2 ''000001'' ''20240103'' 10 1000,
              sample_row 3 ''000002'' ''20240110'' 20 1000,
              sample_row 4 ''000003'' ''20240104'' 30 1000],
      seq = 4\<rparr>"

definition blank_date_table :: table where
  \<comment> \<open>\<open>stale_table\<close> and an instrument 000004 whose one row has the empty text for its
      trade date\<close>
  "blank_date_table =
     \<lparr>rows = rows stale_table @ [sample_row 5 ''000004'' [] 40 1000], seq = 5\<rparr>"

definition sample_frame :: frame where
  \<comment> \<open>what the provider answers: one well-formed bar for 2024-01-10\<close>
  "sample_frame =
     \<lparr>columns = [''riqi'', ''kaipan'', ''shoupan'', ''zuigao'', ''zuidi'',
                 ''chengjiaoliang'', ''chengjiaoe''],
      data = [(\<lambda>c. Num 12)(''riqi'' := Str ''2024-01-10'')]\<rparr>"

definition no_date_text :: "string \<Rightarrow> bool" where
  \<comment> \<open>texts that pandas reads as \<open>NaT\<close>\<close>
  "no_date_text s = (s \<in> set [[], ''NaT'', ''nan''])"

definition iso_date :: "string \<Rightarrow> bool" where
  \<comment> \<open>\<open>YYYY-MM-DD\<close>\<close>
  "iso_date s =
     (length s = 10 \<and> list_all is_digit (take 4 s) \<and> s ! 4 = CHR ''-''
      \<and> list_all is_digit (take 2 (drop 5 s)) \<and> s ! 7 = CHR ''-''
      \<and> list_all is_digit (drop 8 s))"

definition compact_date :: "string \<Rightarrow> bool" where
  \<comment> \<open>\<open>YYYYMMDD\<close>\<close>
  "compact_date s = (length s = 8 \<and> list_all is_digit s)"

definition sample_to_datetime :: "cell list \<Rightarrow> exn + (cell \<Rightarrow> string option)" where
  \<comment> \<open>a reader of columns of texts that are all \<open>YYYY-MM-DD\<close> or all \<open>YYYYMMDD\<close>;
      missing cells and the texts of \<open>no_date_text\<close> are no date; it refuses a column
      that mixes the two formats or holds anything else\<close>
  "sample_to_datetime col =
     (let texts = concat (map (\<lambda>c. case c of
                                      Str s \<Rightarrow> if no_date_text s then [] else [s]
                                    | _ \<Rightarrow> []) col)
      in if list_ex (\<lambda>c. case c of Num x \<Rightarrow> True | _ \<Rightarrow> False) col
         then Inl (ValueError ''Unknown datetime string format'')
         else if list_all iso_date texts
         then Inr (\<lambda>c. case c of
                         Str s \<Rightarrow> if iso_date s then Some (remove_hyphens s) else None
                       | _ \<Rightarrow> None)
         else if list_all compact_date texts
         then Inr (\<lambda>c. case c of
                         Str s \<Rightarrow> if compact_date s then Some s else None
                       | _ \<Rightarrow> None)
         else Inl (ValueError ''time data does not match format''))"

definition sample_env :: env where
  \<comment> \<open>today is 20240110; the provider answers every request with \<open>sample_frame\<close>; the
      database raises nowhere\<close>
  "sample_env =
     \<lparr>date_str = (\<lambda>d. if d \<le> 0 then ''20240110'' else if d = 1 then ''20240109''
                       else ''20230110''),
      provider = (\<lambda>symbol start_date end_date. Inr (Some sample_frame)),
      directory = Inr [''000001'', ''000002''],
      to_datetime = sample_to_datetime,
      to_numeric = (\<lambda>s. None),
      storage_io = io_at 100,
      db_error = (\<lambda>s. None)\<rparr>"

definition is_sleep :: "event \<Rightarrow> bool" where
  "is_sleep ev = (case ev of Sleep d \<Rightarrow> True | _ \<Rightarrow> False)"

definition timeout_env :: env where
  \<comment> \<open>as \<open>sample_env\<close>, but every request to the provider times out\<close>
  "timeout_env =
     sample_env\<lparr>provider := (\<lambda>symbol start_date end_date. Inl (OtherError ''Read timed out''))\<rparr>"

definition no_data_env :: env where
  \<comment> \<open>as \<open>sample_env\<close>, but the provider has no data for any request\<close>
  "no_data_env = sample_env\<lparr>provider := (\<lambda>symbol start_date end_date. Inr None)\<rparr>"








definition sample_reading :: "cell \<Rightarrow> cell" where
  \<comment> \<open>how \<open>sample_to_datetime\<close> reads a cell of a column of \<open>YYYY-MM-DD\<close> dates\<close>
  "sample_reading =
     date_cell (\<lambda>c. case c of
                      Str s \<Rightarrow> if iso_date s then Some (remove_hyphens s) else None
                    | _ \<Rightarrow> None)"



definition negative_volume_table :: table where
  \<comment> \<open>one bar with sound prices and volume -1\<close>
  "negative_volume_table =
     \<lparr>rows = [sample_row 1 ''000001'' ''20240102'' 10 (- 1)], seq = 1\<rparr>"

definition summary :: "exn + report \<Rightarrow> (bool \<times> message list \<times> message list) option" where
  \<comment> \<open>\<open>is_valid\<close>, \<open>errors\<close> and \<open>warnings\<close> of a returned report\<close>
  "summary x = (case x of Inl e \<Rightarrow> None | Inr r \<Rightarrow> Some (is_valid r, errors r, warnings r))"

definition locked_env :: env where
  \<comment> \<open>as \<open>sample_env\<close>, but the database is locked when the consistency check runs\<close>
  "locked_env =
     sample_env\<lparr>db_error :=
       (\<lambda>s. if s = Consistency then Some (OperationalError ''database is locked'') else None)\<rparr>"

definition write_fail_env :: env where
  \<comment> \<open>as \<open>sample_env\<close>, but the first statement of \<open>save_data\<close> hits a disk error\<close>
  "write_fail_env = sample_env\<lparr>storage_io := io_failing 100 0\<rparr>"

definition before_consistency :: report where
  \<comment> \<open>\<open>results\<close> for \<open>negative_volume_table\<close> when the consistency check starts\<close>
  "before_consistency =
     \<lparr>is_valid = True, errors = [], warnings = [NegativeVolume 1],
      statistics = [''total_records'' \<mapsto> Count 1]\<rparr>"

definition fetched :: "string \<Rightarrow> frame" where
  \<comment> \<open>what \<open>fetch_stock_daily_data\<close> makes of \<open>sample_frame\<close> for an instrument\<close>
  "fetched code = assign_column (strip_columns sample_frame) ''gupiaodaima'' (Str code)"

definition canonical_columns :: "string list" where
  "canonical_columns =
     [''trade_date'', ''ts_code'', ''open'', ''close'', ''high'', ''low'', ''volume'', ''amount'']"

definition cells :: "(string \<Rightarrow> cell) \<Rightarrow> cell \<times> cell \<times> cell \<times> cell \<times> cell \<times> cell \<times> cell \<times> cell" where
  \<comment> \<open>the cells of a row that \<open>save_data\<close> reads, in the order of its tuple\<close>
  "cells r =
     (r ''ts_code'', r ''trade_date'', r ''open'', r ''high'', r ''low'', r ''close'',
      r ''volume'', r ''amount'')"

definition new_bar :: "string \<Rightarrow> params" where
  \<comment> \<open>the record that the sample provider's bar becomes for an instrument\<close>
  "new_bar code =
     (Some code, Some ''20240110'', Some 12, Some 12, Some 12, Some 12, Some 12, Some 12)"

definition bar_frame :: "string \<Rightarrow> frame \<Rightarrow> bool" where
  \<comment> \<open>the frame is the sample provider's bar, formatted, for the instrument\<close>
  "bar_frame code f =
     (columns f = canonical_columns
      \<and> (\<exists>r. data f = [r]
            \<and> cells r = (Str code, Str ''20240110'', Num 12, Num 12, Num 12, Num 12, Num 12,
                          Num 12)))"

section \<open>Properties of the storage engine\<close>

subsection \<open>The chunk loop\<close>

lemma executemany_append:
  "executemany env t (xs @ ys) =
     (case executemany env t xs of Inl e \<Rightarrow> Inl e | Inr t' \<Rightarrow> executemany env t' ys)"
  by (induction xs arbitrary: t) (auto split: sum.splits)

lemma chunk_loop_ok:
  "executemany env t (concat (map (\<lambda>i. slice records i bs) starts)) = Inr t'
   \<Longrightarrow> chunk_loop env bs records t starts = (None, t')"
proof (induction starts arbitrary: t)
  case Nil
  then show ?case by simp
next
  case (Cons i starts)
  then show ?case
    by (auto simp: executemany_append split: sum.splits)
qed


lemma concat_slices:
  "0 < n \<Longrightarrow> concat (map (\<lambda>j. take n (drop (j * n) xs)) [0 ..< m]) = take (m * n) xs"
proof (induction m)
  case 0
  then show ?case by simp
next
  case (Suc m)
  have "take (m * n) xs @ take n (drop (m * n) xs) = take (m * n + n) xs"
    by (simp add: take_add)
  with Suc show ?case by (simp add: add.commute)
qed

lemma chunks_concat:
  assumes "0 < bs"
  shows "concat (chunks bs xs) = xs"
proof -
  let ?n = "nat bs"
  have n: "0 < ?n" using assms by simp
  let ?m = "(length xs + ?n - 1) div ?n"
  have "length xs \<le> ?m * ?n"
  proof -
    have "length xs + ?n - 1 < ?m * ?n + ?n"
      using n by (metis add.commute dividend_less_div_times mult.commute)
    then show ?thesis using n by linarith
  qed
  moreover have "concat (chunks bs xs) = take (?m * ?n) xs"
    using assms concat_slices[OF n, of xs ?m]
    by (simp add: chunks_def py_range_def slice_def comp_def)
  ultimately show ?thesis by simp
qed


lemma chunks_starts:
  assumes "0 < bs" and "py_range (length xs) bs = Inr starts"
  shows "chunks bs xs = map (\<lambda>i. slice xs i bs) starts"
  using assms by (simp add: chunks_def)

subsection \<open>One statement, and a run of statements, on the table read by key\<close>

lemma same_key_iff: "same_key r b \<longleftrightarrow> key_of r = key_of b"
  by (simp add: same_key_def key_of_def)

lemma map_of_filter_key:
  "map_of (filter (\<lambda>p. fst p \<noteq> k) xs) = (map_of xs)(k := None)"
  by (induction xs) (auto simp: fun_eq_iff)

lemma view_insert:
  "view (insert_or_replace now t b) = (view t)(key_of b \<mapsto> b)"
proof -
  let ?kv = "\<lambda>r::row. (key_of r, bar_of r)"
  let ?new = "\<lparr>ts_code = ts_code b, trade_date = trade_date b, open = open b, high = high b,
          low = low b, close = close b, volume = volume b, amount = amount b,
          rowid = next_rowid t, created_at = now, updated_at = now\<rparr>"
  have f: "map ?kv (filter (\<lambda>r. \<not> same_key r b) (rows t))
        = filter (\<lambda>p. fst p \<noteq> key_of b) (map ?kv (rows t))"
    by (simp add: filter_map comp_def same_key_iff)
  have n: "?kv ?new = (key_of b, b)"
    by (simp add: key_of_def bar_of_def daily_bar.truncate_def)
  have "view (insert_or_replace now t b)
      = map_of (filter (\<lambda>p. fst p \<noteq> key_of b) (map ?kv (rows t)) @ [(key_of b, b)])"
    unfolding view_def insert_or_replace_def using f n by simp
  also have "\<dots> = (view t)(key_of b \<mapsto> b)"
    by (auto simp: map_of_filter_key map_add_def fun_eq_iff view_def split: option.splits)
  finally show ?thesis .
qed

lemma unique_insert:
  "unique_keys t \<Longrightarrow> unique_keys (insert_or_replace now t b)"
  unfolding unique_keys_def insert_or_replace_def
  by (auto simp: distinct_map_filter same_key_iff key_of_def)

lemma execute_insert_Inr:
  assumes "execute_insert env t kp = Inr t'"
  obtains b where "stmt_error env (fst kp) = None" and "not_null_check (snd kp) = Some b"
    and "t' = insert_or_replace (stmt_time env (fst kp)) t b"
  using assms by (auto simp: execute_insert_def split: option.splits)

lemma well_formed_check: "well_formed p \<longleftrightarrow> (\<exists>b. not_null_check p = Some b)"
  by (cases p) (auto simp: well_formed_def not_null_check_def split: option.splits)

lemma check_has_key:
  "not_null_check p = Some b \<Longrightarrow> has_key p r \<longleftrightarrow> key_of r = key_of b"
  by (cases p) (auto simp: has_key_def not_null_check_def key_of_def split: option.splits)

lemma executemany_Cons_Inr:
  assumes "executemany env t (kp # kps) = Inr t'"
  obtains b where "stmt_error env (fst kp) = None" and "not_null_check (snd kp) = Some b"
    and "executemany env (insert_or_replace (stmt_time env (fst kp)) t b) kps = Inr t'"
proof -
  from assms obtain t1 where t1: "execute_insert env t kp = Inr t1"
    and r: "executemany env t1 kps = Inr t'"
    by (auto split: sum.splits)
  from t1 r that show ?thesis by (auto elim!: execute_insert_Inr)
qed

lemma executemany_view:
  "executemany env t kps = Inr t' \<Longrightarrow> view t' = foldl upd (view t) kps"
proof (induction kps arbitrary: t)
  case Nil
  then show ?case by simp
next
  case (Cons kp kps)
  from Cons.prems obtain b where b: "not_null_check (snd kp) = Some b"
    and r: "executemany env (insert_or_replace (stmt_time env (fst kp)) t b) kps = Inr t'"
    by (rule executemany_Cons_Inr)
  have "view (insert_or_replace (stmt_time env (fst kp)) t b) = upd (view t) kp"
    using b by (simp add: view_insert upd_def)
  with Cons.IH[OF r] show ?case by simp
qed

lemma executemany_unique:
  "executemany env t kps = Inr t' \<Longrightarrow> unique_keys t \<Longrightarrow> unique_keys t'"
proof (induction kps arbitrary: t)
  case Nil
  then show ?case by simp
next
  case (Cons kp kps)
  from Cons.prems(1) obtain b where
    r: "executemany env (insert_or_replace (stmt_time env (fst kp)) t b) kps = Inr t'"
    by (rule executemany_Cons_Inr)
  from Cons.prems(2) have "unique_keys (insert_or_replace (stmt_time env (fst kp)) t b)"
    by (rule unique_insert)
  with Cons.IH[OF r] show ?case .
qed

lemma executemany_total:
  "\<forall>kp \<in> set kps. stmt_error env (fst kp) = None \<and> well_formed (snd kp)
   \<Longrightarrow> \<exists>t'. executemany env t kps = Inr t'"
  by (induction kps arbitrary: t) (auto simp: execute_insert_def well_formed_check)

lemma upd_add: "upd (m ++ g) kp = m ++ upd g kp"
  unfolding upd_def by (simp split: option.splits)

lemma foldl_upd_add: "foldl upd m kps = m ++ foldl upd Map.empty kps"
proof (induction kps rule: rev_induct)
  case Nil
  then show ?case by simp
next
  case (snoc kp kps)
  have "foldl upd m (kps @ [kp]) = upd (foldl upd m kps) kp" by simp
  also have "\<dots> = upd (m ++ foldl upd Map.empty kps) kp" using snoc by simp
  also have "\<dots> = m ++ upd (foldl upd Map.empty kps) kp" by (rule upd_add)
  finally show ?case by simp
qed

lemma map_add_twice: "(m ++ g) ++ g = m ++ (g :: 'a \<rightharpoonup> 'b)"
  by (auto simp: map_add_def fun_eq_iff split: option.splits)

lemma foldl_upd_twice: "foldl upd (foldl upd m kps) kps = foldl upd m kps"
proof -
  have "foldl upd (foldl upd m kps) kps = foldl upd m kps ++ foldl upd Map.empty kps"
    by (rule foldl_upd_add)
  also have "\<dots> = (m ++ foldl upd Map.empty kps) ++ foldl upd Map.empty kps"
    using foldl_upd_add[of m kps] by simp
  also have "\<dots> = m ++ foldl upd Map.empty kps" by (rule map_add_twice)
  also have "\<dots> = foldl upd m kps" by (rule foldl_upd_add[symmetric])
  finally show ?thesis .
qed

lemma view_bars:
  assumes "unique_keys t"
  shows "set (map bar_of (rows t)) = ran (view t)" and "length (rows t) = card (dom (view t))"
proof -
  let ?al = "map (\<lambda>r. (key_of r, bar_of r)) (rows t)"
  have d: "distinct (map fst ?al)" using assms by (simp add: unique_keys_def comp_def)
  have "ran (map_of ?al) = snd ` set ?al" by (rule ran_distinct[OF d])
  then show "set (map bar_of (rows t)) = ran (view t)"
    by (simp add: view_def image_image)
  have "dom (map_of ?al) = fst ` set ?al" by (rule dom_map_of_conv_image_fst)
  then have "card (dom (view t)) = card (set (map key_of (rows t)))"
    by (simp add: view_def image_image)
  also have "\<dots> = length (map key_of (rows t))"
    using assms unfolding unique_keys_def by (rule distinct_card)
  finally show "length (rows t) = card (dom (view t))" by simp
qed

lemma key_present_insert:
  "\<exists>r \<in> set (rows t). key_of r = k
   \<Longrightarrow> \<exists>r \<in> set (rows (insert_or_replace now t b)). key_of r = k"
  unfolding insert_or_replace_def
  by (cases "key_of b = k") (auto simp: same_key_iff key_of_def)

lemma key_new_insert:
  "\<exists>r \<in> set (rows (insert_or_replace now t b)). key_of r = key_of b"
  unfolding insert_or_replace_def by (simp add: key_of_def)

lemma executemany_keeps:
  "executemany env t kps = Inr t' \<Longrightarrow> \<exists>r \<in> set (rows t). key_of r = k
   \<Longrightarrow> \<exists>r \<in> set (rows t'). key_of r = k"
proof (induction kps arbitrary: t)
  case Nil
  then show ?case by simp
next
  case (Cons kp kps)
  from Cons.prems(1) obtain b where
    r: "executemany env (insert_or_replace (stmt_time env (fst kp)) t b) kps = Inr t'"
    by (rule executemany_Cons_Inr)
  from Cons.prems(2)
  have "\<exists>r \<in> set (rows (insert_or_replace (stmt_time env (fst kp)) t b)). key_of r = k"
    by (rule key_present_insert)
  with Cons.IH[OF r] show ?case .
qed

lemma executemany_retrievable:
  "executemany env t kps = Inr t' \<Longrightarrow> kp \<in> set kps
   \<Longrightarrow> \<exists>r \<in> set (rows t'). has_key (snd kp) r"
proof (induction kps arbitrary: t)
  case Nil
  then show ?case by simp
next
  case (Cons a kps)
  from Cons.prems(1) obtain b where b: "not_null_check (snd a) = Some b"
    and r: "executemany env (insert_or_replace (stmt_time env (fst a)) t b) kps = Inr t'"
    by (rule executemany_Cons_Inr)
  show ?case
  proof (cases "kp \<in> set kps")
    case True
    with Cons.IH[OF r] show ?thesis by simp
  next
    case False
    with Cons.prems have "kp = a" by simp
    have "\<exists>r \<in> set (rows (insert_or_replace (stmt_time env (fst a)) t b)). key_of r = key_of b"
      by (rule key_new_insert)
    from executemany_keeps[OF r this] obtain r' where "r' \<in> set (rows t')" "key_of r' = key_of b"
      by blast
    with b \<open>kp = a\<close> show ?thesis by (auto simp: check_has_key)
  qed
qed





subsection \<open>\<open>save_data\<close> in terms of its chunks\<close>


lemma save_data_all_ok:
  assumes "records \<noteq> []" and "0 < batch_size"
    and all: "executemany env t (enumerate 0 records) = Inr t'"
  shows "save_data env batch_size records (Table t, flag)
           = (None, Table t', Some [(flag_time env, length records)])"
proof -
  let ?recs = "enumerate 0 records"
  obtain starts where st: "py_range (length records) batch_size = Inr starts"
    using assms(2) by (simp add: py_range_def)
  then have "py_range (length ?recs) batch_size = Inr starts" by simp
  from chunks_starts[OF assms(2) this]
  have cs: "chunks batch_size ?recs = map (\<lambda>i. slice ?recs i batch_size) starts" .
  have "concat (chunks batch_size ?recs) = ?recs" using assms(2) by (rule chunks_concat)
  then have "executemany env t (concat (map (\<lambda>i. slice ?recs i batch_size) starts)) = Inr t'"
    using all cs by simp
  then have "chunk_loop env batch_size ?recs t starts = (None, t')" by (rule chunk_loop_ok)
  then show ?thesis using assms(1) st by (simp add: save_data_def)
qed



subsection \<open>Saving the same batch twice\<close>

lemma save_data_cases:
  assumes exec: "executemany env t (enumerate 0 records) = Inr t'"
  shows "save_data env batch_size records (Table t, flag) =
           (if records = [] then (None, Table t, flag)
            else if batch_size = 0 then (Some (ValueError ''range() arg 3 must not be zero''), Table t, flag)
            else if batch_size < 0 then (None, Table t, Some [(flag_time env, length records)])
            else (None, Table t', Some [(flag_time env, length records)]))"
proof -
  consider "records = []" | "records \<noteq> []" "batch_size = 0" | "records \<noteq> []" "batch_size < 0"
    | "records \<noteq> []" "0 < batch_size" by linarith
  then show ?thesis
  proof cases
    case 1
    then show ?thesis by (simp add: save_data_def)
  next
    case 2
    then show ?thesis by (simp add: save_data_def py_range_def)
  next
    case 3
    then show ?thesis by (simp add: save_data_def py_range_def)
  next
    case 4
    from save_data_all_ok[OF 4 exec, of flag] 4 show ?thesis by simp
  qed
qed

lemma enumerate_ok:
  assumes "\<forall>p \<in> set records. well_formed p" and "\<forall>k < length records. stmt_error env k = None"
  shows "\<forall>kp \<in> set (enumerate 0 records). stmt_error env (fst kp) = None \<and> well_formed (snd kp)"
proof
  fix kp assume "kp \<in> set (enumerate 0 records)"
  then have k: "fst kp < length records" and p: "records ! fst kp = snd kp"
    by (simp_all add: in_set_enumerate_eq)
  from k p have "snd kp \<in> set records" by (metis nth_mem)
  with k assms show "stmt_error env (fst kp) = None \<and> well_formed (snd kp)" by blast
qed

lemma distinct_filter_one:
  "x \<in> set xs \<Longrightarrow> distinct xs \<Longrightarrow> length (filter (\<lambda>k. k = x) xs) = 1"
  by (induction xs) (auto simp: filter_empty_conv)

text \<open>
  Claim C1 (idempotent upsert). Take a table that satisfies its unique constraint, a
  batch of well-formed records and two runs of \<open>save_data\<close> on that batch in which
  no statement hits an engine error. After the second run the table holds the same data
  columns (everything but \<open>id\<close> and the timestamps) and the same number of rows as
  after the first, and no key occurs twice. For a positive \<open>batch_size\<close> both runs
  return normally and every record of the batch is stored under its key exactly once.
\<close>

theorem save_data_idempotent:
  assumes uniq: "unique_keys t"
    and wf: "\<forall>p \<in> set records. well_formed p"
    and ok1: "\<forall>k < length records. stmt_error env1 k = None"
    and ok2: "\<forall>k < length records. stmt_error env2 k = None"
    and s1: "save_data env1 batch_size records (Table t, flag) = (x1, st1, flag1)"
    and s2: "save_data env2 batch_size records (st1, flag1) = (x2, st2, flag2)"
  shows "set (map bar_of (stored_rows st2)) = set (map bar_of (stored_rows st1))
         \<and> length (stored_rows st2) = length (stored_rows st1)
         \<and> distinct (map key_of (stored_rows st2))
         \<and> (0 < batch_size \<longrightarrow> x1 = None \<and> x2 = None
              \<and> (\<forall>p \<in> set records. length (filter (has_key p) (stored_rows st2)) = 1))"
proof -
  let ?recs = "enumerate 0 records"
  obtain t1 where e1: "executemany env1 t ?recs = Inr t1"
    using executemany_total[OF enumerate_ok[OF wf ok1]] by blast
  obtain t2 where e2: "executemany env2 t1 ?recs = Inr t2"
    using executemany_total[OF enumerate_ok[OF wf ok2]] by blast
  have u1: "unique_keys t1" using executemany_unique[OF e1 uniq] .
  have u2: "unique_keys t2" using executemany_unique[OF e2 u1] .
  have v: "view t2 = view t1"
    using executemany_view[OF e1] executemany_view[OF e2] by (simp add: foldl_upd_twice)
  have same: "set (map bar_of (rows t2)) = set (map bar_of (rows t1))"
    "length (rows t2) = length (rows t1)"
    using view_bars[OF u1] view_bars[OF u2] v by simp_all
  show ?thesis
  proof (cases "records \<noteq> [] \<and> 0 < batch_size")
    case True
    then have st1: "x1 = None" "st1 = Table t1"
      using s1 save_data_cases[OF e1, of batch_size flag] by auto
    then have st2: "x2 = None" "st2 = Table t2"
      using True s2 save_data_cases[OF e2, of batch_size flag1] by auto
    have one: "length (filter (has_key p) (rows t2)) = 1" if "p \<in> set records" for p
    proof -
      from that obtain i where "i < length records" "records ! i = p"
        by (auto simp: in_set_conv_nth)
      then have "(i, p) \<in> set ?recs" by (simp add: in_set_enumerate_eq)
      from executemany_retrievable[OF e2 this] obtain r where r: "r \<in> set (rows t2)" "has_key p r"
        by auto
      from wf that obtain b where b: "not_null_check p = Some b"
        by (auto simp: well_formed_check)
      have "has_key p = (\<lambda>r. key_of r = key_of b)"
        using check_has_key[OF b] by (simp add: fun_eq_iff)
      then have "filter (has_key p) (rows t2) = filter (\<lambda>r. key_of r = key_of b) (rows t2)"
        by simp
      moreover have "length (filter (\<lambda>r. key_of r = key_of b) (rows t2)) = 1"
      proof -
        have "key_of r \<in> set (map key_of (rows t2))" using r(1) by simp
        moreover have "key_of r = key_of b" using r(2) check_has_key[OF b] by simp
        ultimately have "key_of b \<in> set (map key_of (rows t2))" by simp
        moreover have "distinct (map key_of (rows t2))" using u2 by (simp add: unique_keys_def)
        ultimately have "length (filter (\<lambda>k. k = key_of b) (map key_of (rows t2))) = 1"
          by (rule distinct_filter_one)
        then show ?thesis by (simp add: filter_map comp_def)
      qed
      ultimately show ?thesis by simp
    qed
    show ?thesis using st1 st2 same u2 one by (simp add: stored_rows_def unique_keys_def)
  next
    case False
    then have st1: "st1 = Table t" and x1: "0 < batch_size \<longrightarrow> x1 = None"
      using s1 save_data_cases[OF e1, of batch_size flag] by (auto split: if_splits)
    obtain t1' where e1': "executemany env2 t ?recs = Inr t1'"
      using executemany_total[OF enumerate_ok[OF wf ok2]] by blast
    have st2: "st2 = Table t" and x2: "0 < batch_size \<longrightarrow> x2 = None"
      using False s2 st1 save_data_cases[OF e1', of batch_size flag1] by (auto split: if_splits)
    show ?thesis using st1 st2 x1 x2 uniq False by (auto simp: stored_rows_def unique_keys_def)
  qed
qed

theorem save_data_idempotent_witness:
  "unique_keys empty_table
   \<and> list_all well_formed five_records
   \<and> list_all (\<lambda>k. stmt_error (io_at 100) k = None) [0 ..< length five_records]
   \<and> list_all (\<lambda>k. stmt_error (io_at 200) k = None) [0 ..< length five_records]
   \<and> set (map bar_of (stored_rows (fst (snd saved_twice))))
       = set (map bar_of (stored_rows (fst (snd saved_once))))
   \<and> length (stored_rows (fst (snd saved_twice))) = length (stored_rows (fst (snd saved_once)))
   \<and> length (stored_rows (fst (snd saved_once))) = 5
   \<and> fst saved_once = None \<and> fst saved_twice = None"
proof -
  have h1: "unique_keys empty_table" by (simp add: unique_keys_def empty_table_def)
  have h2: "\<forall>p \<in> set five_records. well_formed p"
    by (simp add: five_records_def sample_bar_def well_formed_def)
  have h3: "\<forall>k < length five_records. stmt_error (io_at 100) k = None" by (simp add: io_at_def)
  have h4: "\<forall>k < length five_records. stmt_error (io_at 200) k = None" by (simp add: io_at_def)
  have i: "init_database NoFile = Table empty_table"
    by (simp add: init_database_def empty_table_def)
  have s1: "save_data (io_at 100) 1000 five_records (Table empty_table, None)
      = (fst saved_once, fst (snd saved_once), snd (snd saved_once))"
    by (simp add: saved_once_def i)
  have s2: "save_data (io_at 200) 1000 five_records (fst (snd saved_once), snd (snd saved_once))
      = (fst saved_twice, fst (snd saved_twice), snd (snd saved_twice))"
    by (simp add: saved_twice_def)
  note T = save_data_idempotent[OF h1 h2 h3 h4 s1 s2]
  have n: "length (stored_rows (fst (snd saved_once))) = 5"
    by (simp add: saved_once_def save_data_def i py_range_def slice_def five_records_def
        empty_table_def)
       (simp add: execute_insert_def not_null_check_def sample_bar_def io_at_def
        insert_or_replace_def same_key_def stored_rows_def)
  from T have a: "set (map bar_of (stored_rows (fst (snd saved_twice))))
       = set (map bar_of (stored_rows (fst (snd saved_once))))"
    by (rule conjunct1)
  from T have b: "length (stored_rows (fst (snd saved_twice)))
       = length (stored_rows (fst (snd saved_once)))"
    by (elim conjE)
  from T have x: "fst saved_once = None \<and> fst saved_twice = None"
    by simp
  have g2: "list_all well_formed five_records" using h2 by (simp add: list_all_iff)
  have g3: "list_all (\<lambda>k. stmt_error (io_at 100) k = None) [0 ..< length five_records]"
    by (simp add: list_all_iff io_at_def)
  have g4: "list_all (\<lambda>k. stmt_error (io_at 200) k = None) [0 ..< length five_records]"
    by (simp add: list_all_iff io_at_def)
  show ?thesis
    by (rule conjI[OF h1 conjI[OF g2 conjI[OF g3 conjI[OF g4 conjI[OF a conjI[OF b
        conjI[OF n x]]]]]]])
qed

subsection \<open>Re-ingesting a stored key\<close>

lemma insert_or_replace_row:
  "filter (\<lambda>r. same_key r b) (rows (insert_or_replace now t b)) =
     [\<lparr>ts_code = ts_code b, trade_date = trade_date b, open = open b, high = high b,
       low = low b, close = close b, volume = volume b, amount = amount b,
       rowid = next_rowid t, created_at = now, updated_at = now\<rparr>]"
  by (simp add: insert_or_replace_def same_key_def filter_empty_conv)

text \<open>
  Claim C8 (re-ingest mutates in place and keeps the creation timestamp). The code does
  not do this: \<open>INSERT OR REPLACE\<close> deletes the stored row and inserts a new one, and
  \<open>created_at\<close> is not in the column list, so it takes its default again. A bar first
  saved at time 100 and saved again, corrected, at time 200 ends as a single row with
  the new close, a new \<open>id\<close>, \<open>updated_at = 200\<close> and also \<open>created_at = 200\<close>.
\<close>

theorem re_ingest_resets_created_at:
  "map (\<lambda>r. (rowid r, close r, created_at r, updated_at r)) (stored_rows (fst (snd first_ingest)))
     = [(1, Some 10, 100, 100)]
   \<and> map (\<lambda>r. (rowid r, close r, created_at r, updated_at r)) (stored_rows (fst (snd re_ingest)))
     = [(2, Some 11, 200, 200)]"
proof -
  have f: "first_ingest =
      (None,
       Table \<lparr>rows = [\<lparr>ts_code = ''000001'', trade_date = ''20240102'', open = Some 10,
                       high = Some 10, low = Some 10, close = Some 10, volume = Some 1000,
                       amount = Some 5000, rowid = 1, created_at = 100, updated_at = 100\<rparr>],
              seq = 1\<rparr>,
       Some [(100, 1)])"
    by (simp add: first_ingest_def save_data_def init_database_def py_range_def slice_def
        execute_insert_def not_null_check_def sample_bar_def io_at_def insert_or_replace_def
        next_rowid_def)
  have r: "re_ingest =
      (None,
       Table \<lparr>rows = [\<lparr>ts_code = ''000001'', trade_date = ''20240102'', open = Some 11,
                       high = Some 11, low = Some 11, close = Some 11, volume = Some 1000,
                       amount = Some 5000, rowid = 2, created_at = 200, updated_at = 200\<rparr>],
              seq = 2\<rparr>,
       Some [(200, 1)])"
    unfolding re_ingest_def f
    by (simp add: save_data_def py_range_def slice_def
        execute_insert_def not_null_check_def sample_bar_def io_at_def insert_or_replace_def
        next_rowid_def same_key_def)
  show ?thesis unfolding f r by (simp add: stored_rows_def)
qed

section \<open>Properties of the incremental update\<close>

lemma sql_max_Max:
  assumes "xs \<noteq> []"
  shows "sql_max xs = Some (Max (set xs))"
proof (cases xs)
  case Nil
  with assms show ?thesis by simp
next
  case (Cons a list)
  have "fold max list a = Max (set (a # list))" by (rule Max.set_eq_fold[symmetric])
  with Cons show ?thesis by (simp add: sql_max_def)
qed

lemma fetch_events:
  "snd (fetch_stock_daily_data env code (Some a) (Some b))
     = [Request code (remove_hyphens a) (remove_hyphens b)]"
  by (simp add: fetch_stock_daily_data_def Let_def)

lemma update_one_events:
  "snd (update_one env st ws today code) =
     (case fetch_start st ws code of
        Inr (Some start) \<Rightarrow> [Request code (remove_hyphens start) (remove_hyphens today)]
      | _ \<Rightarrow> [])"
proof (cases "fetch_start st ws code")
  case (Inl e)
  then show ?thesis by (simp add: update_one_def)
next
  case (Inr p)
  show ?thesis
  proof (cases p)
    case None
    with Inr show ?thesis by (simp add: update_one_def)
  next
    case (Some start)
    obtain res evs where f: "fetch_stock_daily_data env code (Some start) (Some today) = (res, evs)"
      by (cases "fetch_stock_daily_data env code (Some start) (Some today)")
    with fetch_events[of env code start today]
    have evs: "evs = [Request code (remove_hyphens start) (remove_hyphens today)]" by simp
    show ?thesis using Inr Some f evs
      by (auto simp: update_one_def split: sum.splits option.splits)
  qed
qed

lemma get_latest_stored:
  "get_latest_date_for_stock (Table t) code = Inr (stored_latest t code)"
proof (cases "map trade_date (filter (\<lambda>r. ts_code r = code) (rows t)) = []")
  case True
  then show ?thesis
    by (simp add: get_latest_date_for_stock_def sql_max_def stored_latest_def max_stored_date_def)
next
  case False
  from sql_max_Max[OF False] False show ?thesis
    by (simp add: get_latest_date_for_stock_def stored_latest_def max_stored_date_def)
qed

lemma fetch_start_policy:
  "fetch_start (Table t) window_start code
   = Inr (map_option fst (window_policy window_start today (stored_latest t code)))"
  by (simp add: fetch_start_def get_latest_stored window_policy_def split: option.splits)

lemma update_one_policy:
  "snd (update_one env (Table t) window_start today code)
   = (case window_policy window_start today (stored_latest t code) of
        None \<Rightarrow> []
      | Some (a, b) \<Rightarrow> [Request code (remove_hyphens a) (remove_hyphens b)])"
  unfolding update_one_events fetch_start_policy[of t window_start code today]
  by (simp add: window_policy_def split: option.splits)

lemma update_loop_trace:
  "snd (update_loop env st ws today codes fs evs)
   = evs @ concat (map (\<lambda>code. snd (update_one env st ws today code)) codes)"
proof (induction codes arbitrary: fs evs)
  case Nil
  then show ?case by simp
next
  case (Cons code codes)
  obtain f evs' where u: "update_one env st ws today code = (f, evs')"
    by (cases "update_one env st ws today code")
  with Cons.IH show ?case by (cases f) simp_all
qed

lemma update_trace:
  "snd (snd (snd (update_incremental_data env days (Table t, flag))))
   = concat (map (\<lambda>code. snd (update_one env (Table t) (date_str env days) (date_str env 0) code))
       (sort (remdups (map ts_code (rows t)))))"
proof -
  let ?codes = "sort (remdups (map ts_code (rows t)))"
  obtain fs evs where l: "update_loop env (Table t) (date_str env days) (date_str env 0) ?codes [] []
      = (fs, evs)"
    by (cases "update_loop env (Table t) (date_str env days) (date_str env 0) ?codes [] []")
  with update_loop_trace[of env "Table t" "date_str env days" "date_str env 0" ?codes "[]" "[]"]
  have evs: "evs = concat (map (\<lambda>code. snd (update_one env (Table t) (date_str env days)
      (date_str env 0) code)) ?codes)"
    by simp
  show ?thesis
  proof (cases "?codes = []")
    case True
    then show ?thesis
      by (simp add: update_incremental_data_def check_database_exists_def
          get_all_stock_codes_from_db_def)
  next
    case False
    then show ?thesis
      using l evs
      by (simp add: update_incremental_data_def check_database_exists_def
          get_all_stock_codes_from_db_def Let_def split: prod.splits option.splits
          del: update_loop.simps)
  qed
qed

lemma update_trace_policy:
  "snd (snd (snd (update_incremental_data env days (Table t, flag))))
   = planned_requests env days t (stored_latest t)"
  unfolding update_trace planned_requests_def update_one_policy ..

lemma blank_date_codes:
  "sort (remdups (map ts_code (rows blank_date_table)))
   = [''000001'', ''000002'', ''000003'', ''000004'']"
  by (simp add: blank_date_table_def stale_table_def sample_row_def)

lemma blank_date_max:
  "max_stored_date blank_date_table ''000001'' = Some ''20240103''"
  "max_stored_date blank_date_table ''000002'' = Some ''20240110''"
  "max_stored_date blank_date_table ''000003'' = Some ''20240104''"
  "max_stored_date blank_date_table ''000004'' = Some []"
  by (simp_all add: max_stored_date_def blank_date_table_def stale_table_def sample_row_def)

lemma sample_dates:
  "date_str sample_env 0 = ''20240110''" "date_str sample_env 1 = ''20240109''"
  by (simp_all add: sample_env_def)

lemma blank_date_planned:
  "planned_requests sample_env 1 blank_date_table (stored_latest blank_date_table)
   = [Request ''000001'' ''20240103'' ''20240110'', Request ''000003'' ''20240104'' ''20240110'',
      Request ''000004'' ''20240109'' ''20240110'']"
  by (simp add: planned_requests_def blank_date_codes sample_dates stored_latest_def
      blank_date_max window_policy_def remove_hyphens_def)

text \<open>
  Claim C2 (three-case window policy, with \<open>latest\<close> the maximum stored trade date or
  none). The code does not take the maximum stored date as it is: a maximum that is the
  empty text counts as no date (\<open>if result and result[0]\<close>). Instrument 000004 of
  \<open>blank_date_table\<close> has one stored row, whose trade date is the empty text; by the
  claim its window starts at that date (the empty text is below every window start),
  the code requests it from the window start 20240109.
\<close>

theorem incremental_window_latest_counterexample:
  "snd (snd (snd (update_incremental_data sample_env 1 (Table blank_date_table, None))))
     = [Request ''000001'' ''20240103'' ''20240110'', Request ''000003'' ''20240104'' ''20240110'',
        Request ''000004'' ''20240109'' ''20240110'']
   \<and> planned_requests sample_env 1 blank_date_table (max_stored_date blank_date_table)
     = [Request ''000001'' ''20240103'' ''20240110'', Request ''000003'' ''20240104'' ''20240110'',
        Request ''000004'' [] ''20240110'']"
proof -
  have "snd (snd (snd (update_incremental_data sample_env 1 (Table blank_date_table, None))))
     = [Request ''000001'' ''20240103'' ''20240110'', Request ''000003'' ''20240104'' ''20240110'',
        Request ''000004'' ''20240109'' ''20240110'']"
    by (simp only: update_trace_policy blank_date_planned)
  moreover have "planned_requests sample_env 1 blank_date_table (max_stored_date blank_date_table)
     = [Request ''000001'' ''20240103'' ''20240110'', Request ''000003'' ''20240104'' ''20240110'',
        Request ''000004'' [] ''20240110'']"
    by (simp add: planned_requests_def blank_date_codes sample_dates blank_date_max
        window_policy_def remove_hyphens_def)
  ultimately show ?thesis by (rule conjI)
qed

text \<open>
  Claim C2 as amended. The incremental update goes through the instruments that have
  stored rows, in the order of their codes, and for each of them, with \<open>latest\<close> the
  largest stored trade date of the instrument, or none when that date is the empty
  text, \<open>today\<close> the current date and \<open>window_start\<close> the date \<open>days\<close> days earlier
  (dates being compared as texts): (1) when \<open>latest\<close> is none it requests the
  instrument from \<open>window_start\<close> to \<open>today\<close>; (2) when \<open>latest < window_start\<close> it
  requests it from \<open>latest\<close> itself to \<open>today\<close>; (3) otherwise it makes no request for
  the instrument. These are all the requests that the update makes, whatever the
  provider answers and whether or not the new rows can be saved.
\<close>

theorem incremental_window_policy:
  "snd (snd (snd (update_incremental_data env days (Table t, flag))))
     = planned_requests env days t (stored_latest t)
   \<and> (\<forall>code. fetch_start (Table t) (date_str env days) code
               = Inr (map_option fst
                   (window_policy (date_str env days) (date_str env 0) (stored_latest t code))))"
  using update_trace_policy fetch_start_policy by blast

theorem incremental_window_policy_witness:
  "snd (snd (snd (update_incremental_data sample_env 1 (Table blank_date_table, None))))
     = [Request ''000001'' ''20240103'' ''20240110'', Request ''000003'' ''20240104'' ''20240110'',
        Request ''000004'' ''20240109'' ''20240110'']
   \<and> fetch_start (Table blank_date_table) ''20240109'' ''000001'' = Inr (Some ''20240103'')
   \<and> fetch_start (Table blank_date_table) ''20240109'' ''000002'' = Inr None
   \<and> fetch_start (Table blank_date_table) ''20240109'' ''000004'' = Inr (Some ''20240109'')"
proof -
  note T = incremental_window_policy[of sample_env 1 blank_date_table None]
  have a: "snd (snd (snd (update_incremental_data sample_env 1 (Table blank_date_table, None))))
     = [Request ''000001'' ''20240103'' ''20240110'', Request ''000003'' ''20240104'' ''20240110'',
        Request ''000004'' ''20240109'' ''20240110'']"
    using T[THEN conjunct1] by (simp only: blank_date_planned)
  have f: "fetch_start (Table blank_date_table) ''20240109'' code
      = Inr (map_option fst (window_policy ''20240109'' ''20240110''
               (stored_latest blank_date_table code)))" for code
    using T[THEN conjunct2, THEN spec, of code] by (simp only: sample_dates)
  have b: "fetch_start (Table blank_date_table) ''20240109'' ''000001'' = Inr (Some ''20240103'')"
    unfolding f by (simp add: stored_latest_def blank_date_max window_policy_def)
  have c: "fetch_start (Table blank_date_table) ''20240109'' ''000002'' = Inr None"
    unfolding f by (simp add: stored_latest_def blank_date_max window_policy_def)
  have d: "fetch_start (Table blank_date_table) ''20240109'' ''000004'' = Inr (Some ''20240109'')"
    unfolding f by (simp add: stored_latest_def blank_date_max window_policy_def)
  show ?thesis by (rule conjI[OF a conjI[OF b conjI[OF c d]]])
qed
section \<open>Properties of the fetcher and the formatter\<close>

lemma fetch_returns:
  "\<exists>r. fst (fetch_stock_daily_data env stock_code start_date end_date) = Inr r"
  by (auto simp: fetch_stock_daily_data_def try_except_def Let_def
      split: sum.splits option.splits)

text \<open>
  Claim C6 (the fetch tells a provider failure from the absence of data). It does not:
  the whole body of \<open>fetch_stock_daily_data\<close> is inside \<open>try\<close>, and the handler
  logs and returns \<open>None\<close>. A provider that times out and a provider without data
  give the caller the same result.
\<close>

theorem fetch_failure_is_none_counterexample:
  "fst (fetch_stock_daily_data timeout_env ''000001'' (Some ''20240103'') (Some ''20240110''))
     = Inr None
   \<and> fst (fetch_stock_daily_data no_data_env ''000001'' (Some ''20240103'') (Some ''20240110''))
     = Inr None"
  by (simp add: fetch_stock_daily_data_def try_except_def timeout_env_def no_data_env_def
      sample_env_def)

text \<open>
  Claim C6 as amended: \<open>fetch_stock_daily_data\<close> never raises; it returns \<open>None\<close>
  when the provider returns nothing or an empty table, and also when the provider call
  raises.
\<close>

theorem fetch_never_raises:
  "(\<exists>r. fst (fetch_stock_daily_data env stock_code start_date end_date) = Inr r)
   \<and> (provider env stock_code (remove_hyphens a) (remove_hyphens b) = Inr None
        \<longrightarrow> fst (fetch_stock_daily_data env stock_code (Some a) (Some b)) = Inr None)
   \<and> ((\<exists>df. provider env stock_code (remove_hyphens a) (remove_hyphens b) = Inr (Some df)
             \<and> is_empty df)
        \<longrightarrow> fst (fetch_stock_daily_data env stock_code (Some a) (Some b)) = Inr None)
   \<and> ((\<exists>x. provider env stock_code (remove_hyphens a) (remove_hyphens b) = Inl x)
        \<longrightarrow> fst (fetch_stock_daily_data env stock_code (Some a) (Some b)) = Inr None)"
proof (intro conjI impI)
  show "\<exists>r. fst (fetch_stock_daily_data env stock_code start_date end_date) = Inr r"
    by (rule fetch_returns)
next
  assume "provider env stock_code (remove_hyphens a) (remove_hyphens b) = Inr None"
  then show "fst (fetch_stock_daily_data env stock_code (Some a) (Some b)) = Inr None"
    by (simp add: fetch_stock_daily_data_def try_except_def Let_def)
next
  assume "\<exists>df. provider env stock_code (remove_hyphens a) (remove_hyphens b) = Inr (Some df)
             \<and> is_empty df"
  then show "fst (fetch_stock_daily_data env stock_code (Some a) (Some b)) = Inr None"
    by (auto simp: fetch_stock_daily_data_def try_except_def Let_def)
next
  assume "\<exists>x. provider env stock_code (remove_hyphens a) (remove_hyphens b) = Inl x"
  then show "fst (fetch_stock_daily_data env stock_code (Some a) (Some b)) = Inr None"
    by (auto simp: fetch_stock_daily_data_def try_except_def Let_def)
qed

theorem fetch_never_raises_witness:
  "provider timeout_env ''000001'' (remove_hyphens ''20240103'') (remove_hyphens ''20240110'')
     = Inl (OtherError ''Read timed out'')
   \<and> fst (fetch_stock_daily_data timeout_env ''000001'' (Some ''20240103'') (Some ''20240110''))
     = Inr None"
proof -
  have h: "provider timeout_env ''000001'' (remove_hyphens ''20240103'') (remove_hyphens ''20240110'')
     = Inl (OtherError ''Read timed out'')" by (simp add: timeout_env_def)
  then have "\<exists>x. provider timeout_env ''000001'' (remove_hyphens ''20240103'')
     (remove_hyphens ''20240110'') = Inl x" by (rule exI)
  then have "fst (fetch_stock_daily_data timeout_env ''000001'' (Some ''20240103'')
      (Some ''20240110'')) = Inr None"
    by (rule fetch_never_raises[of timeout_env "''000001''" "Some ''20240103''"
      "Some ''20240110''" "''20240103''" "''20240110''",
      THEN conjunct2, THEN conjunct2, THEN conjunct2, THEN mp])
  with h show ?thesis by (rule conjI)
qed

subsection \<open>The formatter\<close>

lemma find_in_filter:
  "distinct (map snd m) \<Longrightarrow> (old, new) \<in> set m \<Longrightarrow> Q (old, new)
   \<Longrightarrow> find (\<lambda>(old_col, n). n = new) (filter Q m) = Some (old, new)"
proof (induction m)
  case Nil
  then show ?case by simp
next
  case (Cons p m)
  show ?case
  proof (cases "p = (old, new)")
    case True
    with Cons.prems show ?thesis by simp
  next
    case False
    with Cons.prems have in_m: "(old, new) \<in> set m" by simp
    then have "new \<in> snd ` set m" by force
    with Cons.prems(1) have "snd p \<noteq> new" by auto
    with Cons.IH[OF _ in_m Cons.prems(3)] Cons.prems(1) show ?thesis
      by (cases p) auto
  qed
qed

lemma mapping_distinct: "distinct (map snd column_mapping)"
  by (simp add: column_mapping_def)

lemma trade_date_not_numeric: "''trade_date'' \<notin> set numeric_columns"
  by (simp add: numeric_columns_def)

lemma find_present:
  "(old, new) \<in> set (present_columns df)
   \<Longrightarrow> find (\<lambda>(old_col, n). n = new) (present_columns df) = Some (old, new)"
  unfolding present_columns_def using mapping_distinct
  by (intro find_in_filter) auto

lemma find_absent:
  "new \<notin> snd ` set (present_columns df)
   \<Longrightarrow> find (\<lambda>(old_col, n). n = new) (present_columns df) = None"
  by (force simp: find_None_iff)

lemma trade_date_present:
  "''trade_date'' \<in> snd ` set (present_columns df) \<longleftrightarrow> ''riqi'' \<in> set (columns df)"
proof
  assume "''trade_date'' \<in> snd ` set (present_columns df)"
  then obtain old where "(old, ''trade_date'') \<in> set (present_columns df)" by force
  then have "(old, ''trade_date'') \<in> set column_mapping" and "old \<in> set (columns df)"
    by (simp_all add: present_columns_def)
  then show "''riqi'' \<in> set (columns df)" by (simp add: column_mapping_def)
next
  assume "''riqi'' \<in> set (columns df)"
  moreover have "(''riqi'', ''trade_date'') \<in> set column_mapping" by (simp add: column_mapping_def)
  ultimately have "(''riqi'', ''trade_date'') \<in> set (present_columns df)"
    by (simp add: present_columns_def)
  then show "''trade_date'' \<in> snd ` set (present_columns df)" by force
qed

lemma riqi_present:
  "(old, ''trade_date'') \<in> set (present_columns df) \<Longrightarrow> old = ''riqi''"
proof -
  assume "(old, ''trade_date'') \<in> set (present_columns df)"
  then have "(old, ''trade_date'') \<in> set column_mapping" by (simp add: present_columns_def)
  then show ?thesis by (simp add: column_mapping_def)
qed


lemma rename_columns_ok:
  "\<not> duplicated df \<Longrightarrow> rename_columns df
     = Inr \<lparr>columns = map snd (present_columns df),
            data = (if present_columns df = [] then []
                    else map (\<lambda>r new_col.
                                case find (\<lambda>(old_col, n). n = new_col) (present_columns df) of
                                  Some (old_col, n) \<Rightarrow> r old_col
                                | None \<Rightarrow> Null) (data df))\<rparr>"
proof -
  assume "\<not> duplicated df"
  then have "find (\<lambda>(old_col, new_col). 1 < count_list (columns df) old_col) (present_columns df) = None"
    by (auto simp: duplicated_def list_ex_iff find_None_iff present_columns_def)
  then show ?thesis
    by (simp add: rename_columns_def Let_def present_columns_def[symmetric])
qed

lemma formatted_cell_out:
  assumes "c \<notin> snd ` set (present_columns df)" and "d c = Null"
  shows "coerce_numeric env (map snd (present_columns df)) d c = formatted_row env df g r c"
proof -
  have "find (\<lambda>(old_col, n). n = c) (present_columns df) = None"
    using assms(1) by (rule find_absent)
  then have "formatted_row env df g r c = Null" by (simp add: formatted_row_def)
  moreover have "coerce_numeric env (map snd (present_columns df)) d c = d c"
    using assms(1) by (simp add: coerce_numeric_def)
  ultimately show ?thesis using assms(2) by simp
qed

lemma formatted_cell_date:
  assumes "(old, ''trade_date'') \<in> set (present_columns df)" and "d ''trade_date'' = g (r old)"
  shows "coerce_numeric env (map snd (present_columns df)) d ''trade_date''
         = formatted_row env df g r ''trade_date''"
proof -
  have "find (\<lambda>(old_col, n). n = ''trade_date'') (present_columns df) = Some (old, ''trade_date'')"
    using assms(1) by (rule find_present)
  then have "formatted_row env df g r ''trade_date'' = g (r old)"
    by (simp add: formatted_row_def formatted_cell_def)
  moreover have "coerce_numeric env (map snd (present_columns df)) d ''trade_date'' = d ''trade_date''"
    using trade_date_not_numeric by (simp add: coerce_numeric_def)
  ultimately show ?thesis using assms(2) by simp
qed

lemma formatted_cell_other:
  assumes "(old, c) \<in> set (present_columns df)" and "c \<noteq> ''trade_date''" and "d c = r old"
  shows "coerce_numeric env (map snd (present_columns df)) d c = formatted_row env df g r c"
proof -
  have "find (\<lambda>(old_col, n). n = c) (present_columns df) = Some (old, c)"
    using assms(1) by (rule find_present)
  then have f: "formatted_row env df g r c = formatted_cell env g c (r old)"
    by (simp add: formatted_row_def)
  have "c \<in> set (map snd (present_columns df))" using assms(1) by force
  then have "coerce_numeric env (map snd (present_columns df)) d c
      = (if c \<in> set numeric_columns then numeric_cell env (d c) else d c)"
    by (simp only: coerce_numeric_def simp_thms)
  with f assms(2,3) show ?thesis by (simp only: formatted_cell_def if_False)
qed

lemma renamed_cell:
  "(old, c) \<in> set (present_columns df) \<Longrightarrow>
   (case find (\<lambda>(old_col, n). n = c) (present_columns df) of
      Some (old_col, n) \<Rightarrow> r old_col | None \<Rightarrow> Null) = r old"
  by (simp add: find_present)

lemma renamed_cell_out:
  "c \<notin> snd ` set (present_columns df) \<Longrightarrow>
   (case find (\<lambda>(old_col, n). n = c) (present_columns df) of
      Some (old_col, n) \<Rightarrow> r old_col | None \<Rightarrow> (Null :: cell)) = Null"
  by (simp add: find_absent)

lemma formatted_row_plain:
  assumes "''riqi'' \<notin> set (columns df)"
  shows "coerce_numeric env (map snd (present_columns df))
           (\<lambda>c. case find (\<lambda>(old_col, n). n = c) (present_columns df) of
                   Some (old_col, n) \<Rightarrow> r old_col | None \<Rightarrow> Null)
         = formatted_row env df g r"
    (is "coerce_numeric env ?cols ?d = _")
proof
  fix c
  show "coerce_numeric env ?cols ?d c = formatted_row env df g r c"
  proof (cases "c \<in> snd ` set (present_columns df)")
    case False
    then have "?d c = Null" by (rule renamed_cell_out)
    with False show ?thesis by (rule formatted_cell_out)
  next
    case True
    then obtain old where m: "(old, c) \<in> set (present_columns df)" by force
    have n: "c \<noteq> ''trade_date''" using True assms trade_date_present by blast
    have "?d c = r old" using m by (rule renamed_cell)
    with m n show ?thesis by (rule formatted_cell_other)
  qed
qed

lemma formatted_row_dated:
  assumes "''riqi'' \<in> set (columns df)"
  shows "coerce_numeric env (map snd (present_columns df))
           ((\<lambda>c. case find (\<lambda>(old_col, n). n = c) (present_columns df) of
                   Some (old_col, n) \<Rightarrow> r old_col | None \<Rightarrow> Null)
              (''trade_date'' := g (r ''riqi'')))
         = formatted_row env df g r"
    (is "coerce_numeric env ?cols (?d(''trade_date'' := _)) = _")
proof
  fix c
  let ?d' = "?d(''trade_date'' := g (r ''riqi''))"
  have "''trade_date'' \<in> snd ` set (present_columns df)"
    using assms trade_date_present by blast
  then obtain old0 where "(old0, ''trade_date'') \<in> set (present_columns df)" by force
  then have td: "(''riqi'', ''trade_date'') \<in> set (present_columns df)"
    using riqi_present by blast
  show "coerce_numeric env ?cols ?d' c = formatted_row env df g r c"
  proof (cases "c = ''trade_date''")
    case True
    have "?d' ''trade_date'' = g (r ''riqi'')" by (rule fun_upd_same)
    with td show ?thesis unfolding True by (rule formatted_cell_date)
  next
    case n: False
    then have o: "?d' c = ?d c" by (simp only: fun_upd_apply if_False)
    show ?thesis
    proof (cases "c \<in> snd ` set (present_columns df)")
      case False
      then have "?d c = Null" by (rule renamed_cell_out)
      with o have "?d' c = Null" by (simp only:)
      with False show ?thesis by (rule formatted_cell_out)
    next
      case True
      then obtain old where m: "(old, c) \<in> set (present_columns df)" by force
      have "?d c = r old" using m by (rule renamed_cell)
      with o have "?d' c = r old" by (simp only:)
      with m n show ?thesis by (rule formatted_cell_other)
    qed
  qed
qed

lemma formatted_row_kept:
  "list_all (\<lambda>c. formatted_row env df g r c \<noteq> Null) (map snd (present_columns df))
   \<longleftrightarrow> list_all (\<lambda>(old_col, new_col). formatted_cell env g new_col (r old_col) \<noteq> Null)
         (present_columns df)"
proof -
  have "formatted_row env df g r (snd p) = (case p of (old_col, new_col) \<Rightarrow>
          formatted_cell env g new_col (r old_col))" if "p \<in> set (present_columns df)" for p
  proof -
    obtain old new where p: "p = (old, new)" by (cases p)
    with that have "find (\<lambda>(old_col, n). n = new) (present_columns df) = Some (old, new)"
      by (simp add: find_present)
    then show ?thesis by (simp add: p formatted_row_def)
  qed
  then show ?thesis by (auto simp: list_all_iff split: prod.splits)
qed

lemma dropna_formatted:
  assumes ne: "present_columns df \<noteq> []"
    and e: "\<And>r. coerce_numeric env (map snd (present_columns df)) (dat r) = formatted_row env df g r"
  shows "dropna \<lparr>columns = map snd (present_columns df),
                  data = map (coerce_numeric env (map snd (present_columns df))) (map dat (data df))\<rparr>
         = \<lparr>columns = map snd (present_columns df),
            data = map (formatted_row env df g) (filter (kept env df g) (data df))\<rparr>"
proof -
  have k: "list_all (\<lambda>c. formatted_row env df g r c \<noteq> Null) (map snd (present_columns df))
           \<longleftrightarrow> kept env df g r" for r
    using ne by (simp only: formatted_row_kept kept_def simp_thms)
  have m: "map (coerce_numeric env (map snd (present_columns df))) (map dat (data df))
         = map (formatted_row env df g) (data df)"
    by (simp add: e)
  show ?thesis
    unfolding m by (simp add: dropna_def filter_map comp_def k)
qed

lemma format_rows:
  assumes ne: "\<not> is_empty df" and nd: "\<not> duplicated df"
  shows "format_data_for_storage env (Some df) =
     (case date_reading env df of
        Inl e \<Rightarrow> Inl e
      | Inr g \<Rightarrow> Inr \<lparr>columns = map snd (present_columns df),
                     data = map (formatted_row env df g) (filter (kept env df g) (data df))\<rparr>)"
proof (cases "present_columns df = []")
  case True
  then have "''riqi'' \<notin> set (columns df)" using trade_date_present[of df] by auto
  with True ne show ?thesis
    by (simp add: format_data_for_storage_def rename_columns_ok[OF nd] date_reading_def
        dropna_def kept_def)
next
  case False
  let ?ren = "\<lambda>r c. case find (\<lambda>(old_col, n). n = c) (present_columns df) of
                            Some (old_col, n) \<Rightarrow> r old_col | None \<Rightarrow> Null"
  let ?cols = "map snd (present_columns df)"
  have rc: "rename_columns df = Inr \<lparr>columns = ?cols, data = map ?ren (data df)\<rparr>"
    using False by (simp add: rename_columns_ok[OF nd])
  show ?thesis
  proof (cases "''riqi'' \<in> set (columns df)")
    case no: False
    then have td: "''trade_date'' \<notin> set ?cols" using trade_date_present[of df] by simp
    have "format_data_for_storage env (Some df)
        = Inr (dropna \<lparr>columns = ?cols, data = map (coerce_numeric env ?cols) (map ?ren (data df))\<rparr>)"
      using ne td by (simp add: format_data_for_storage_def rc)
    also have "\<dots> = Inr \<lparr>columns = ?cols,
             data = map (formatted_row env df (\<lambda>c. c)) (filter (kept env df (\<lambda>c. c)) (data df))\<rparr>"
      by (simp only: dropna_formatted[of df env "?ren" "\<lambda>c. c", OF False formatted_row_plain[OF no]])
    finally show ?thesis using no by (simp add: date_reading_def)
  next
    case yes: True
    then have td: "''trade_date'' \<in> set ?cols" using trade_date_present[of df] by simp
    then obtain old where "(old, ''trade_date'') \<in> set (present_columns df)" by force
    then have "(''riqi'', ''trade_date'') \<in> set (present_columns df)"
      using riqi_present by blast
    then have rn: "?ren r ''trade_date'' = r ''riqi''" for r by (rule renamed_cell)
    have col: "map (\<lambda>r. r ''trade_date'') (map ?ren (data df)) = map (\<lambda>r. r ''riqi'') (data df)"
      by (simp add: comp_def rn)
    have fmt: "format_data_for_storage env (Some df) =
        (case convert_dates env (map ?ren (data df)) of
           Inl e \<Rightarrow> Inl e
         | Inr dated \<Rightarrow>
             Inr (dropna \<lparr>columns = ?cols, data = map (coerce_numeric env ?cols) dated\<rparr>))"
      using ne td by (simp add: format_data_for_storage_def rc split: sum.splits)
    show ?thesis
    proof (cases "to_datetime env (map (\<lambda>r. r ''riqi'') (data df))")
      case (Inl e)
      then have "convert_dates env (map ?ren (data df)) = Inl e"
        unfolding convert_dates_def col by simp
      then have "format_data_for_storage env (Some df) = Inl e"
        unfolding fmt by simp
      then show ?thesis using yes Inl by (simp add: date_reading_def)
    next
      case (Inr reading)
      let ?dat = "\<lambda>r. (?ren r)(''trade_date'' := date_cell reading (r ''riqi''))"
      from Inr have "convert_dates env (map ?ren (data df)) = Inr (map ?dat (data df))"
        unfolding convert_dates_def col by (simp add: comp_def rn)
      then have "format_data_for_storage env (Some df)
        = Inr (dropna \<lparr>columns = ?cols, data = map (coerce_numeric env ?cols)
                 (map ?dat (data df))\<rparr>)"
        unfolding fmt by simp
      also have "\<dots> = Inr \<lparr>columns = ?cols,
             data = map (formatted_row env df (date_cell reading))
                      (filter (kept env df (date_cell reading)) (data df))\<rparr>"
        by (simp only: dropna_formatted[of df env "?dat" "date_cell reading",
              OF False formatted_row_dated[OF yes]])
      finally show ?thesis using yes Inr by (simp add: date_reading_def)
    qed
  qed
qed



lemma iso_sample: "iso_date ''2024-01-10''" "\<not> iso_date ''20240111''" "\<not> iso_date []"
  "\<not> compact_date ''2024-01-10''"
  by (simp_all add: iso_date_def compact_date_def is_digit_def)

lemma no_date_sample: "\<not> no_date_text ''2024-01-10''" "\<not> no_date_text ''20240111''" "no_date_text []"
  by (simp_all add: no_date_text_def)

lemma sample_reading_cells:
  "sample_reading (Str ''2024-01-10'') = Str ''20240110''"
  "sample_reading (Str []) = Null"
  "sample_reading Null = Null"
  by (simp_all add: sample_reading_def date_cell_def iso_sample remove_hyphens_def)















section \<open>Properties of the validator\<close>

lemma get_detailed_statistics_raises:
  "get_detailed_statistics rs = Inl (KeyError ''total_records'')"
  by (simp add: get_detailed_statistics_def lookup_def Let_def)

lemma step_raise_keeps:
  assumes "s \<in> set (validate_steps env st)" and "s results = (Raise e, results')"
  shows "results' = results"
  using assms
  by (auto simp: validate_steps_def step_exists_def step_connect_def step_probe_def
      step_count_def step_integrity_def step_correctness_def step_consistency_def
      step_statistics_def Let_def split: option.splits if_splits storage.splits sum.splits)

lemma run_steps_prefix_raise:
  "k < length ss \<Longrightarrow> run_steps (take k ss) r0 = (Next, acc)
   \<Longrightarrow> (ss ! k) acc = (Raise e, r') \<Longrightarrow> run_steps ss r0 = (Raise e, r')"
proof (induction ss arbitrary: k r0)
  case Nil
  then show ?case by simp
next
  case (Cons s ss)
  show ?case
  proof (cases k)
    case 0
    with Cons.prems show ?thesis by simp
  next
    case (Suc k')
    with Cons.prems show ?thesis
      by (cases "s r0") (auto split: flow.splits intro: Cons.IH)
  qed
qed

lemma validate_data_returns: "\<exists>r. validate_data env st = Inr r"
  by (cases "run_steps (validate_steps env st) new_results")
     (auto simp: validate_data_def split: flow.splits)

lemma correctness_negative_volume:
  "check_data_correctness (rows negative_volume_table) = [NegativeVolume 1]"
  by (simp add: check_data_correctness_def negative_volume_table_def sample_row_def
      sql_count_def cmp_def Let_def)

lemma integrity_negative_volume:
  "check_data_integrity (rows negative_volume_table) = []"
  by (simp add: check_data_integrity_def negative_volume_table_def sample_row_def
      sql_count_def is_digit_def Let_def)

lemma consistency_negative_volume:
  "check_data_consistency ''20240110'' (rows negative_volume_table) = [FewRecords 1]"
  by (simp add: check_data_consistency_def negative_volume_table_def sample_row_def
      sql_count_def Let_def)

text \<open>
  Claim C4 (validation severity: only a high-severity finding fails the report of a
  nonempty dataset). The code fails every nonempty dataset. \<open>get_detailed_statistics\<close>
  reads \<open>'total_records'\<close> from its own new dictionary and raises \<open>KeyError\<close>; the
  handler of \<open>validate_data\<close> then sets \<open>is_valid\<close> to false. For one bar with sound
  prices and volume -1 the correctness check finds the one warning and nothing severe,
  and the report is invalid all the same.
\<close>

theorem negative_volume_report_invalid:
  "summary (validate_data sample_env (Table negative_volume_table))
     = Some (False, [CheckFailed (KeyError ''total_records'')], [NegativeVolume 1, FewRecords 1])
   \<and> filter severe (check_data_correctness (rows negative_volume_table)) = []"
proof -
  have d: "date_str sample_env 0 = ''20240110''" "db_error sample_env = (\<lambda>s. None)"
    by (simp_all add: sample_env_def)
  have n: "length (rows negative_volume_table) = 1" by (simp add: negative_volume_table_def)
  have "summary (validate_data sample_env (Table negative_volume_table))
     = Some (False, [CheckFailed (KeyError ''total_records'')], [NegativeVolume 1, FewRecords 1])"
    by (simp add: summary_def validate_data_def validate_steps_def step_exists_def
        step_connect_def step_probe_def step_count_def step_integrity_def step_correctness_def
        step_consistency_def step_statistics_def stored_rows_def d n Let_def
        correctness_negative_volume integrity_negative_volume consistency_negative_volume
        get_detailed_statistics_raises new_results_def fail_with_def)
  moreover have "filter severe (check_data_correctness (rows negative_volume_table)) = []"
    by (simp add: correctness_negative_volume)
  ultimately show ?thesis by (rule conjI)
qed

lemma nonempty_never_valid:
  assumes "rows t \<noteq> []"
  shows "\<exists>r. validate_data env (Table t) = Inr r \<and> \<not> is_valid r"
  using assms
  by (auto simp: validate_data_def validate_steps_def step_exists_def
      step_connect_def step_probe_def step_count_def step_integrity_def step_correctness_def
      step_consistency_def step_statistics_def stored_rows_def Let_def
      get_detailed_statistics_raises new_results_def fail_with_def
      split: option.splits)

text \<open>
  Claim C10 (\<open>validate_data\<close> is total). It always returns a report. When the steps
  before step \<open>k\<close> went through and left \<open>results\<close> as \<open>acc\<close>, and step \<open>k\<close>
  raises \<open>e\<close>, the report returned is \<open>acc\<close> with \<open>is_valid\<close> false and the message
  for \<open>e\<close> appended to its errors: the warnings, errors and statistics gathered so far
  are kept.
\<close>

theorem validate_data_total:
  "(\<exists>r. validate_data env st = Inr r)
   \<and> (\<forall>k acc e.
        k < length (validate_steps env st)
        \<and> run_steps (take k (validate_steps env st)) new_results = (Next, acc)
        \<and> fst ((validate_steps env st ! k) acc) = Raise e
        \<longrightarrow> validate_data env st =
              Inr \<lparr>is_valid = False, errors = errors acc @ [CheckFailed e],
                   warnings = warnings acc, statistics = statistics acc\<rparr>)"
proof (intro conjI allI impI)
  show "\<exists>r. validate_data env st = Inr r"
    by (rule validate_data_returns)
next
  fix k acc e
  assume a: "k < length (validate_steps env st)
        \<and> run_steps (take k (validate_steps env st)) new_results = (Next, acc)
        \<and> fst ((validate_steps env st ! k) acc) = Raise e"
  then obtain r' where r': "(validate_steps env st ! k) acc = (Raise e, r')"
    by (cases "(validate_steps env st ! k) acc") auto
  from a have "validate_steps env st ! k \<in> set (validate_steps env st)" by simp
  from step_raise_keeps[OF this r'] have "r' = acc" .
  with a r' have "run_steps (validate_steps env st) new_results = (Raise e, acc)"
    using run_steps_prefix_raise by blast
  then show "validate_data env st =
              Inr \<lparr>is_valid = False, errors = errors acc @ [CheckFailed e],
                   warnings = warnings acc, statistics = statistics acc\<rparr>"
    by (simp add: validate_data_def fail_with_def)
qed

theorem validate_data_total_witness:
  "6 < length (validate_steps locked_env (Table negative_volume_table))
   \<and> run_steps (take 6 (validate_steps locked_env (Table negative_volume_table))) new_results
       = (Next, before_consistency)
   \<and> fst ((validate_steps locked_env (Table negative_volume_table) ! 6) before_consistency)
       = Raise (OperationalError ''database is locked'')
   \<and> validate_data locked_env (Table negative_volume_table)
       = Inr \<lparr>is_valid = False, errors = [CheckFailed (OperationalError ''database is locked'')],
              warnings = [NegativeVolume 1], statistics = [''total_records'' \<mapsto> Count 1]\<rparr>"
proof -
  have n: "length (rows negative_volume_table) = 1" by (simp add: negative_volume_table_def)
  have h: "6 < length (validate_steps locked_env (Table negative_volume_table))
   \<and> run_steps (take 6 (validate_steps locked_env (Table negative_volume_table))) new_results
       = (Next, before_consistency)
   \<and> fst ((validate_steps locked_env (Table negative_volume_table) ! 6) before_consistency)
       = Raise (OperationalError ''database is locked'')"
    by (simp add: validate_steps_def step_exists_def
        step_connect_def step_probe_def step_count_def step_integrity_def step_correctness_def
        step_consistency_def stored_rows_def n Let_def locked_env_def sample_env_def
        correctness_negative_volume integrity_negative_volume
        new_results_def before_consistency_def)
  from validate_data_total[of locked_env "Table negative_volume_table", THEN conjunct2,
      rule_format, OF h]
  have "validate_data locked_env (Table negative_volume_table)
       = Inr \<lparr>is_valid = False, errors = [CheckFailed (OperationalError ''database is locked'')],
              warnings = [NegativeVolume 1], statistics = [''total_records'' \<mapsto> Count 1]\<rparr>"
    by (simp add: before_consistency_def)
  with h show ?thesis by simp
qed

section \<open>Properties of the jobs\<close>

subsection \<open>The incremental update on the sample data\<close>

lemma codes: "get_all_stock_codes_from_db (Table stale_table) = Inr [''000001'', ''000002'', ''000003'']"
  by (simp add: get_all_stock_codes_from_db_def stale_table_def sample_row_def)

lemma starts:
  "fetch_start (Table stale_table) ''20240109'' ''000001'' = Inr (Some ''20240103'')"
  "fetch_start (Table stale_table) ''20240109'' ''000002'' = Inr None"
  "fetch_start (Table stale_table) ''20240109'' ''000003'' = Inr (Some ''20240104'')"
  by (simp_all add: fetch_start_def get_latest_date_for_stock_def stale_table_def sample_row_def sql_max_def)

lemma fetch_sample:
  "provider env = (\<lambda>symbol start_date end_date. Inr (Some sample_frame)) \<Longrightarrow>
   fetch_stock_daily_data env code (Some a) (Some b)
   = (Inr (Some (fetched code)), [Request code (remove_hyphens a) (remove_hyphens b)])"
  by (simp add: fetch_stock_daily_data_def try_except_def fetched_def
     is_empty_def sample_frame_def strip_columns_def strip_def is_space_def required_columns_def)

lemma fetched_nonempty: "\<not> is_empty (fetched code)"
  by (simp add: fetched_def is_empty_def assign_column_def strip_columns_def sample_frame_def)

lemma fetched_cols: "columns (fetched code) = [''riqi'', ''kaipan'', ''shoupan'', ''zuigao'', ''zuidi'',
                 ''chengjiaoliang'', ''chengjiaoe'', ''gupiaodaima'']"
  by (simp add: fetched_def assign_column_def strip_columns_def sample_frame_def strip_def is_space_def)

lemma fetched_data:
  "\<exists>r. data (fetched code) = [r]
     \<and> r ''riqi'' = Str ''2024-01-10'' \<and> r ''gupiaodaima'' = Str code
     \<and> r ''kaipan'' = Num 12 \<and> r ''shoupan'' = Num 12 \<and> r ''zuigao'' = Num 12
     \<and> r ''zuidi'' = Num 12 \<and> r ''chengjiaoliang'' = Num 12 \<and> r ''chengjiaoe'' = Num 12"
  by (simp add: fetched_def assign_column_def strip_columns_def sample_frame_def strip_def
      is_space_def)

lemma fetched_present: "present_columns (fetched code) = column_mapping"
  by (simp add: present_columns_def fetched_cols column_mapping_def)

lemma fetched_not_duplicated: "\<not> duplicated (fetched code)"
  by (simp add: duplicated_def fetched_cols column_mapping_def)

lemma format_fetched:
  assumes "to_datetime env = sample_to_datetime"
  shows "\<exists>out r. format_data_for_storage env (Some (fetched code)) = Inr out
     \<and> columns out = canonical_columns \<and> data out = [r]
     \<and> cells r = (Str code, Str ''20240110'', Num 12, Num 12, Num 12, Num 12, Num 12, Num 12)"
proof -
  from fetched_data[of code] obtain r where d: "data (fetched code) = [r]"
    and r: "r ''riqi'' = Str ''2024-01-10''" "r ''gupiaodaima'' = Str code"
      "r ''kaipan'' = Num 12" "r ''shoupan'' = Num 12" "r ''zuigao'' = Num 12"
      "r ''zuidi'' = Num 12" "r ''chengjiaoliang'' = Num 12" "r ''chengjiaoe'' = Num 12"
    by (elim exE conjE)
  have rd: "date_reading env (fetched code) = Inr sample_reading"
    by (simp add: date_reading_def fetched_cols d r(1) assms sample_to_datetime_def
        no_date_sample iso_sample sample_reading_def)
  have k: "kept env (fetched code) sample_reading r"
    by (simp add: kept_def fetched_present)
       (simp add: column_mapping_def formatted_cell_def numeric_columns_def numeric_cell_def
          r sample_reading_cells)
  have c: "cells (formatted_row env (fetched code) sample_reading r)
      = (Str code, Str ''20240110'', Num 12, Num 12, Num 12, Num 12, Num 12, Num 12)"
    by (simp add: cells_def formatted_row_def fetched_present)
       (simp add: column_mapping_def formatted_cell_def numeric_columns_def numeric_cell_def
          r sample_reading_cells)
  have "format_data_for_storage env (Some (fetched code))
      = Inr \<lparr>columns = map snd column_mapping,
             data = [formatted_row env (fetched code) sample_reading r]\<rparr>"
    by (simp add: format_rows[OF fetched_nonempty fetched_not_duplicated] rd fetched_present d k)
  moreover have "map snd column_mapping = canonical_columns"
    by (simp add: column_mapping_def canonical_columns_def)
  ultimately show ?thesis using c by simp
qed


lemma update_one_sample:
  assumes p: "provider env = (\<lambda>symbol start_date end_date. Inr (Some sample_frame))"
    and t: "to_datetime env = sample_to_datetime"
    and s: "fetch_start st ''20240109'' code = Inr (Some start)"
  shows "\<exists>f. update_one env st ''20240109'' ''20240110'' code
           = (Some f, [Request code (remove_hyphens start) ''20240110'']) \<and> bar_frame code f"
proof -
  from format_fetched[OF t, of code] obtain out where
    f: "format_data_for_storage env (Some (fetched code)) = Inr out" and b: "bar_frame code out"
    unfolding bar_frame_def by blast
  from b have "\<not> is_empty out" by (auto simp: bar_frame_def is_empty_def canonical_columns_def)
  then have "update_one env st ''20240109'' ''20240110'' code
           = (Some out, [Request code (remove_hyphens start) ''20240110''])"
    by (simp add: update_one_def s fetch_sample[OF p] fetched_nonempty f remove_hyphens_def)
  with b show ?thesis by blast
qed

lemma update_loop_sample:
  assumes p: "provider env = (\<lambda>symbol start_date end_date. Inr (Some sample_frame))"
    and t: "to_datetime env = sample_to_datetime"
  shows "\<exists>f1 f3. update_loop env (Table stale_table) ''20240109'' ''20240110''
            [''000001'', ''000002'', ''000003''] [] []
           = ([f1, f3], [Request ''000001'' ''20240103'' ''20240110'',
                         Request ''000003'' ''20240104'' ''20240110''])
          \<and> bar_frame ''000001'' f1 \<and> bar_frame ''000003'' f3"
proof -
  from update_one_sample[OF p t starts(1)] obtain f1 where
    u1: "update_one env (Table stale_table) ''20240109'' ''20240110'' ''000001''
           = (Some f1, [Request ''000001'' (remove_hyphens ''20240103'') ''20240110''])"
    and b1: "bar_frame ''000001'' f1" by blast
  from update_one_sample[OF p t starts(3)] obtain f3 where
    u3: "update_one env (Table stale_table) ''20240109'' ''20240110'' ''000003''
           = (Some f3, [Request ''000003'' (remove_hyphens ''20240104'') ''20240110''])"
    and b3: "bar_frame ''000003'' f3" by blast
  have u2: "update_one env (Table stale_table) ''20240109'' ''20240110'' ''000002'' = (None, [])"
    by (simp add: update_one_def starts(2))
  have "update_loop env (Table stale_table) ''20240109'' ''20240110''
            [''000001'', ''000002'', ''000003''] [] []
           = ([f1, f3], [Request ''000001'' ''20240103'' ''20240110'',
                         Request ''000003'' ''20240104'' ''20240110''])"
    by (simp add: u1 u2 u3 remove_hyphens_def)
  with b1 b3 show ?thesis by (intro exI conjI)
qed

lemma records_of_two:
  assumes "bar_frame c1 f1" and "bar_frame c3 f3"
  shows "records_of (concat_frames [f1, f3]) = [new_bar c1, new_bar c3]"
proof -
  from assms obtain r1 r3 where
    f1: "columns f1 = canonical_columns" "data f1 = [r1]"
    and c1: "cells r1 = (Str c1, Str ''20240110'', Num 12, Num 12, Num 12, Num 12, Num 12, Num 12)"
    and f3: "columns f3 = canonical_columns" "data f3 = [r3]"
    and c3: "cells r3 = (Str c3, Str ''20240110'', Num 12, Num 12, Num 12, Num 12, Num 12, Num 12)"
    unfolding bar_frame_def by blast
  have cols: "columns (concat_frames [f1, f3]) = canonical_columns"
    by (simp add: concat_frames_def f1 f3 canonical_columns_def)
  have dat: "data (concat_frames [f1, f3]) =
      [(\<lambda>c. if c \<in> set canonical_columns then r1 c else Null),
       (\<lambda>c. if c \<in> set canonical_columns then r3 c else Null)]"
    by (simp add: concat_frames_def f1 f3)
  have ne: "\<not> is_empty (concat_frames [f1, f3])"
    by (simp add: is_empty_def cols dat) (simp add: canonical_columns_def)
  show ?thesis
    using c1 c3
    by (simp add: records_of_def ne dat text_field_def real_field_def cols new_bar_def cells_def)
       (simp add: canonical_columns_def)
qed


lemma update_sample:
  assumes p: "provider env = (\<lambda>symbol start_date end_date. Inr (Some sample_frame))"
    and t: "to_datetime env = sample_to_datetime"
    and d: "date_str env = date_str sample_env"
  shows "update_incremental_data env 1 (Table stale_table, flag) =
     (case save_data (storage_io env) 1000 [new_bar ''000001'', new_bar ''000003'']
             (Table stale_table, flag) of
        (Some e, st', flag') \<Rightarrow>
          (Inl e, st', flag', [Request ''000001'' ''20240103'' ''20240110'',
                               Request ''000003'' ''20240104'' ''20240110''])
      | (None, st', flag') \<Rightarrow>
          (Inr True, st', flag', [Request ''000001'' ''20240103'' ''20240110'',
                                  Request ''000003'' ''20240104'' ''20240110'']))"
proof -
  have ds: "date_str env 0 = ''20240110''" "date_str env 1 = ''20240109''"
    by (simp_all add: d sample_env_def)
  from update_loop_sample[OF p t] obtain f1 f3 where
    l: "update_loop env (Table stale_table) ''20240109'' ''20240110''
            [''000001'', ''000002'', ''000003''] [] []
           = ([f1, f3], [Request ''000001'' ''20240103'' ''20240110'',
                         Request ''000003'' ''20240104'' ''20240110''])"
    and b: "bar_frame ''000001'' f1" "bar_frame ''000003'' f3" by blast
  show ?thesis
    by (simp add: update_incremental_data_def check_database_exists_def codes ds l
        records_of_two[OF b] Let_def del: update_loop.simps)
qed

lemma save_new_bars_fails:
  "save_data (io_failing 100 0) 1000 [new_bar ''000001'', new_bar ''000003'']
     (Table stale_table, None)
   = (Some (OperationalError ''disk I/O error''), Table stale_table, None)"
  by (simp add: save_data_def py_range_def slice_def execute_insert_def io_failing_def)

lemma save_new_bars_ok:
  "\<exists>t'. save_data (io_at 100) 1000 [new_bar ''000001'', new_bar ''000003'']
     (Table stale_table, None) = (None, Table t', Some [(100, 2)]) \<and> length (rows t') = 6"
  by (simp add: save_data_def py_range_def slice_def execute_insert_def io_at_def new_bar_def
      not_null_check_def)
     (simp add: insert_or_replace_def stale_table_def sample_row_def same_key_def)

lemma update_write_fails:
  "update_incremental_data write_fail_env 1 (Table stale_table, None)
   = (Inl (OperationalError ''disk I/O error''), Table stale_table, None,
      [Request ''000001'' ''20240103'' ''20240110'', Request ''000003'' ''20240104'' ''20240110''])"
  by (subst update_sample) (simp_all add: write_fail_env_def sample_env_def save_new_bars_fails)

lemma update_sample_ok:
  "\<exists>t'. update_incremental_data sample_env 1 (Table stale_table, None)
   = (Inr True, Table t', Some [(100, 2)],
      [Request ''000001'' ''20240103'' ''20240110'', Request ''000003'' ''20240104'' ''20240110''])
    \<and> length (rows t') = 6"
proof -
  have s: "storage_io sample_env = io_at 100" by (simp add: sample_env_def)
  from save_new_bars_ok obtain t' where
    "save_data (io_at 100) 1000 [new_bar ''000001'', new_bar ''000003'']
     (Table stale_table, None) = (None, Table t', Some [(100, 2)])" "length (rows t') = 6"
    by blast
  then show ?thesis
    by (subst update_sample) (simp_all add: sample_env_def)
qed

subsection \<open>The daily job\<close>

lemma update_one_timeout:
  "provider env = (\<lambda>symbol start_date end_date. Inl e)
   \<Longrightarrow> fst (update_one env st ws today code) = None"
  by (simp add: update_one_def fetch_stock_daily_data_def try_except_def Let_def
      split: sum.splits option.splits)

lemma update_loop_none:
  "(\<And>code. fst (update_one env st ws today code) = None)
   \<Longrightarrow> fst (update_loop env st ws today codes fs evs) = fs"
proof (induction codes arbitrary: evs)
  case Nil
  then show ?case by simp
next
  case (Cons code codes)
  obtain f evs' where u: "update_one env st ws today code = (f, evs')"
    by (cases "update_one env st ws today code")
  with Cons.prems[of code] have "f = None" by simp
  with u Cons.IH[OF Cons.prems] show ?case by simp
qed

lemma update_timeout:
  "fst (update_incremental_data timeout_env 1 (Table stale_table, None)) = Inr False"
proof -
  have p: "provider timeout_env = (\<lambda>symbol start_date end_date. Inl (OtherError ''Read timed out''))"
    by (simp add: timeout_env_def)
  obtain fs evs where l: "update_loop timeout_env (Table stale_table) (date_str timeout_env 1)
      (date_str timeout_env 0) [''000001'', ''000002'', ''000003''] [] [] = (fs, evs)"
    by (cases "update_loop timeout_env (Table stale_table) (date_str timeout_env 1)
      (date_str timeout_env 0) [''000001'', ''000002'', ''000003''] [] []")
  with update_loop_none[of timeout_env "Table stale_table" "date_str timeout_env 1"
      "date_str timeout_env 0" "[''000001'', ''000002'', ''000003'']" "[]" "[]",
      OF update_one_timeout[OF p]]
  have "fs = []" by simp
  with l show ?thesis
    by (simp add: update_incremental_data_def check_database_exists_def codes Let_def
        del: update_loop.simps)
qed

lemma daily_job_outcomes:
  "escaped (daily_job env w) = None
   \<and> (\<forall>e. fst (update_incremental_data env 1 w) = Inl e
        \<longrightarrow> printed (daily_job env w) = None \<and> logged (daily_job env w) = Some e)
   \<and> (\<forall>b. fst (update_incremental_data env 1 w) = Inr b
        \<longrightarrow> (\<exists>r. printed (daily_job env w) = Some r
                 \<and> validate_data env (fst (snd (update_incremental_data env 1 w))) = Inr r)
            \<and> logged (daily_job env w) = None)"
proof -
  obtain x st flag evs where u: "update_incremental_data env 1 w = (x, st, flag, evs)"
    by (cases "update_incremental_data env 1 w") auto
  obtain r where v: "validate_data env st = Inr r"
    using validate_data_returns by blast
  show ?thesis
    by (cases x) (simp_all add: daily_job_def u v)
qed

text \<open>
  Claim C5 (the daily job always runs the validator after the update step, whatever
  the update step did). The job means to: it logs "no update needed or update failed"
  when the update returns false and goes on to the validation, and the update turns
  the failure of an instrument into a false return, so that with a provider that times
  out on every request the report is printed. But \<open>save_data\<close> is called outside the
  \<open>try\<close> of the loop over the instruments, and the update and the validation share one
  \<open>try\<close> in the job: with a disk error on the first statement of the save the
  exception leaves \<open>update_incremental_data\<close>, jumps over the validation to the handler
  that logs it, and the job ends without a report.
\<close>

theorem daily_job_skips_validation_after_write_failure:
  "fst (update_incremental_data write_fail_env 1 (Table stale_table, None))
     = Inl (OperationalError ''disk I/O error'')
   \<and> printed (daily_job write_fail_env (Table stale_table, None)) = None
   \<and> logged (daily_job write_fail_env (Table stale_table, None))
     = Some (OperationalError ''disk I/O error'')
   \<and> fst (update_incremental_data timeout_env 1 (Table stale_table, None)) = Inr False
   \<and> printed (daily_job timeout_env (Table stale_table, None)) \<noteq> None"
proof -
  have a: "fst (update_incremental_data write_fail_env 1 (Table stale_table, None))
     = Inl (OperationalError ''disk I/O error'')"
    by (simp add: update_write_fails)
  have b: "printed (daily_job write_fail_env (Table stale_table, None)) = None"
    by (simp add: daily_job_def update_write_fails)
  have c: "logged (daily_job write_fail_env (Table stale_table, None))
     = Some (OperationalError ''disk I/O error'')"
    by (simp add: daily_job_def update_write_fails)
  have d: "fst (update_incremental_data timeout_env 1 (Table stale_table, None)) = Inr False"
    by (rule update_timeout)
  have e: "printed (daily_job timeout_env (Table stale_table, None)) \<noteq> None"
    using daily_job_outcomes[of timeout_env "(Table stale_table, None)"] d by auto
  show ?thesis by (rule conjI[OF a conjI[OF b conjI[OF c conjI[OF d e]]]])
qed

subsection \<open>Pauses between requests\<close>

lemma update_one_no_sleep: "filter is_sleep (snd (update_one env st ws today code)) = []"
  by (simp add: update_one_events is_sleep_def split: sum.splits option.splits)

lemma update_loop_no_sleep:
  "filter is_sleep (snd (update_loop env st ws today codes fs evs)) = filter is_sleep evs"
proof (induction codes arbitrary: fs evs)
  case Nil
  then show ?case by simp
next
  case (Cons code codes)
  obtain f evs' where u: "update_one env st ws today code = (f, evs')"
    by (cases "update_one env st ws today code")
  with update_one_no_sleep[of env st ws today code] have "filter is_sleep evs' = []" by simp
  with u Cons.IH show ?case by (cases f) simp_all
qed

lemma update_never_sleeps:
  "filter is_sleep (snd (snd (snd (update_incremental_data env days w)))) = []"
proof -
  obtain st flag where w: "w = (st, flag)" by (cases w)
  have l: "filter is_sleep evs = []"
    if "update_loop env st a b codes [] [] = (fs, evs)" for a b codes fs evs
    using update_loop_no_sleep[of env st a b codes "[]" "[]"] that by simp
  show ?thesis
    unfolding w update_incremental_data_def Let_def
    by (auto split: sum.splits prod.splits option.splits dest: l simp del: update_loop.simps)
qed

lemma fetch_loop_events:
  assumes "0 < delay"
  shows "snd (fetch_loop env a b delay codes fs evs) =
     evs @ concat (map (\<lambda>c. [Request c (remove_hyphens a) (remove_hyphens b), Sleep delay]) codes)"
proof (induction codes arbitrary: fs evs)
  case Nil
  then show ?case by simp
next
  case (Cons code codes)
  from fetch_returns obtain res where
    "fst (fetch_stock_daily_data env code (Some a) (Some b)) = Inr res" by blast
  with fetch_events[of env code a b]
  have f: "fetch_stock_daily_data env code (Some a) (Some b)
      = (Inr res, [Request code (remove_hyphens a) (remove_hyphens b)])"
    by (simp add: prod_eq_iff)
  show ?case using assms by (simp add: f Cons.IH)
qed

lemma fetch_all_pauses:
  assumes "0 < delay" and "directory env = Inr codes"
  shows "snd (fetch_all_stock_data env days delay) =
     concat (map (\<lambda>c. [Request c (remove_hyphens (date_str env days))
                             (remove_hyphens (date_str env 0)), Sleep delay]) codes)"
proof -
  obtain fs evs where l: "fetch_loop env (date_str env days) (date_str env 0) delay codes [] []
      = (fs, evs)" by (cases "fetch_loop env (date_str env days) (date_str env 0) delay codes [] []")
  from fetch_loop_events[OF assms(1), of env "date_str env days" "date_str env 0" codes "[]" "[]"] l
  have "evs = concat (map (\<lambda>c. [Request c (remove_hyphens (date_str env days))
                             (remove_hyphens (date_str env 0)), Sleep delay]) codes)" by simp
  then show ?thesis using assms(2) l by (simp add: fetch_all_stock_data_def Let_def)
qed

text \<open>
  Claim C9 (a delay between one instrument's fetch and the next in both loops). The loop
  of \<open>fetch_all_stock_data\<close> pauses after each request; the loop of
  \<open>update_incremental_data\<close> never pauses. With two instruments behind the window the
  incremental update sends their two requests back to back, while the full fetch of two
  instruments with delay 0.1 sleeps after each request.
\<close>

theorem incremental_update_makes_no_pause:
  "snd (snd (snd (update_incremental_data sample_env 1 (Table stale_table, None))))
     = [Request ''000001'' ''20240103'' ''20240110'', Request ''000003'' ''20240104'' ''20240110'']
   \<and> snd (fetch_all_stock_data sample_env 365 (1 / 10))
     = [Request ''000001'' ''20230110'' ''20240110'', Sleep (1 / 10),
        Request ''000002'' ''20230110'' ''20240110'', Sleep (1 / 10)]"
proof -
  have a: "snd (snd (snd (update_incremental_data sample_env 1 (Table stale_table, None))))
     = [Request ''000001'' ''20240103'' ''20240110'', Request ''000003'' ''20240104'' ''20240110'']"
    using update_sample_ok by auto
  have d: "directory sample_env = Inr [''000001'', ''000002'']" by (simp add: sample_env_def)
  have "(0::real) < 1 / 10" by simp
  from fetch_all_pauses[OF this d, of 365]
  have b: "snd (fetch_all_stock_data sample_env 365 (1 / 10))
     = [Request ''000001'' ''20230110'' ''20240110'', Sleep (1 / 10),
        Request ''000002'' ''20230110'' ''20240110'', Sleep (1 / 10)]"
    by (simp add: sample_env_def remove_hyphens_def)
  from a b show ?thesis by (rule conjI)
qed

end
